theory Spec2Isabelle
  imports Complex_Main "HOL-Library.Word"
begin

section \<open>Values supplied by the runtime\<close>

text \<open>
  The handlers observe a \<open>Bytes\<close> or \<open>Address\<close> value only through \<open>toHexString()\<close>, so
  such a value is represented by that string. \<open>BigInt\<close> is an unbounded integer; an \<open>i32\<close>
  that is only compared and printed (chain id, score) is an \<open>int\<close> as well, and an \<open>i32\<close>
  that is added to (a histogram entry) is a word of 32 bits, read as a signed number. A
  \<open>BigDecimal\<close> value is the rational number it denotes; the operations that produce one
  belong to the runtime and are parameters. Log calls have no effect on the store and are
  left out.
\<close>

type_synonym bytes = string

definition digit_char :: "nat \<Rightarrow> char" where
  "digit_char d = ''0123456789'' ! d"

function natToString :: "nat \<Rightarrow> string" where
  "natToString n =
     (if n < 10 then [digit_char n] else natToString (n div 10) @ [digit_char (n mod 10)])"
  by pat_completeness auto
termination
  by (relation "measure id") auto

declare natToString.simps [simp del]

text \<open>\<open>toString()\<close> of an \<open>i32\<close> or a \<open>BigInt\<close>: decimal, with a minus sign when negative.\<close>

definition toString :: "int \<Rightarrow> string" where
  "toString i = (if i < 0 then CHR ''-'' # natToString (nat (- i)) else natToString (nat i))"

definition zeroTag :: string where
  "zeroTag = ''0x0000000000000000000000000000000000000000000000000000000000000000''"

definition zeroAddressHex :: string where
  "zeroAddressHex = ''0x0000000000000000000000000000000000000000''"

record contract_addresses =
  ca_identityRegistry :: bytes
  ca_reputationRegistry :: bytes
  ca_validationRegistry :: bytes

text \<open>
  The helpers imported from \<open>./utils/chain\<close>, \<open>./utils/ipfs\<close>, \<open>./utils/arweave\<close> and
  \<open>./contract-addresses\<close> are parameters of every handler, and so are the functions of the
  runtime whose results the handlers store: \<open>BigDecimal.fromString\<close>, \<open>times\<close>, \<open>plus\<close> and
  \<open>div\<close> (which may round, and where \<open>None\<close> is a trap of the division), and
  \<open>Bytes.fromHexString\<close> (whose result is given, as every \<open>Bytes\<close> value, by its
  \<open>toHexString()\<close>).
\<close>

record host =
  getChainId :: int
  isSupportedChain :: "int \<Rightarrow> bool"
  getChainName :: "int \<Rightarrow> string"
  getContractAddresses :: "int \<Rightarrow> contract_addresses"
  determineUriType :: "string \<Rightarrow> string"
  isIpfsUri :: "string \<Rightarrow> bool"
  extractIpfsHash :: "string \<Rightarrow> string"
  isArweaveUri :: "string \<Rightarrow> bool"
  extractArweaveTxId :: "string \<Rightarrow> string"
  bytes32ToString :: "bytes \<Rightarrow> string"
  bd_fromString :: "string \<Rightarrow> rat"
  bd_times :: "rat \<Rightarrow> rat \<Rightarrow> rat"
  bd_plus :: "rat \<Rightarrow> rat \<Rightarrow> rat"
  bd_div :: "rat \<Rightarrow> rat \<Rightarrow> rat option"
  fromHexString :: "string \<Rightarrow> bytes"

section \<open>Entities\<close>

record agent =
  a_id :: string
  a_chainId :: int
  a_agentId :: int
  a_createdAt :: int
  a_operators :: "bytes list"
  a_totalFeedback :: int
  a_lastActivity :: int
  a_registrationFile :: "string option"
  a_owner :: bytes
  a_agentURI :: string
  a_agentURIType :: string
  a_updatedAt :: int

record agent_metadata =
  m_id :: string
  m_agent :: string
  m_key :: string
  m_value :: bytes
  m_updatedAt :: int

record feedback =
  f_id :: string
  f_agent :: string
  f_clientAddress :: bytes
  f_score :: int
  f_tag1 :: "string option"
  f_tag2 :: "string option"
  f_feedbackUri :: string
  f_feedbackURIType :: string
  f_feedbackHash :: bytes
  f_isRevoked :: bool
  f_createdAt :: int
  f_revokedAt :: "int option"
  f_feedbackFile :: "string option"

record feedback_response =
  r_id :: string
  r_feedback :: string
  r_responder :: bytes
  r_responseUri :: string
  r_responseHash :: bytes
  r_createdAt :: int

record agent_stats =
  st_id :: string
  st_agent :: string
  st_totalFeedback :: int
  st_averageScore :: rat
  st_scoreDistribution :: "32 word list"
  st_totalValidations :: int
  st_completedValidations :: int
  st_averageValidationScore :: rat
  st_lastActivity :: int
  st_updatedAt :: int

record protocol =
  p_id :: string
  p_chainId :: int
  p_name :: string
  p_identityRegistry :: bytes
  p_reputationRegistry :: bytes
  p_validationRegistry :: bytes
  p_totalAgents :: int
  p_totalFeedback :: int
  p_totalValidations :: int
  p_agents :: "string list"
  p_tags :: "string list"
  p_updatedAt :: int

record global_stats =
  g_id :: string
  g_totalAgents :: int
  g_totalFeedback :: int
  g_totalValidations :: int
  g_totalProtocols :: int
  g_agents :: "string list"
  g_tags :: "string list"
  g_updatedAt :: int

record agent_registration_file =
  rf_id :: string
  rf_cid :: string
  rf_agentId :: string
  rf_createdAt :: int
  rf_supportedTrusts :: "string list"
  rf_mcpTools :: "string list"
  rf_mcpPrompts :: "string list"
  rf_mcpResources :: "string list"
  rf_a2aSkills :: "string list"
  rf_name :: "string option"
  rf_description :: "string option"
  rf_image :: "string option"
  rf_active :: "bool option"
  rf_x402support :: "bool option"
  rf_mcpEndpoint :: "string option"
  rf_mcpVersion :: "string option"
  rf_a2aEndpoint :: "string option"
  rf_a2aVersion :: "string option"
  rf_agentWallet :: "bytes option"
  rf_agentWalletChainId :: "int option"
  rf_ens :: "string option"
  rf_did :: "string option"

section \<open>The store and the effects of a handler\<close>

datatype context_value = CtxString string | CtxBigInt int

type_synonym data_source_context = "(string \<times> context_value) list"

datatype template =
  RegistrationFile | ArweaveRegistrationFile | FeedbackFileTemplate | ArweaveFeedbackFileTemplate

text \<open>
  Every \<open>save()\<close> and every \<open>createWithContext\<close> is recorded, in the order in which the
  handler performs it, next to the entity tables themselves.
\<close>

datatype effect =
    SaveAgent agent
  | SaveAgentMetadata agent_metadata
  | SaveFeedback feedback
  | SaveFeedbackResponse feedback_response
  | SaveAgentStats agent_stats
  | SaveProtocol protocol
  | SaveGlobalStats global_stats
  | SaveAgentRegistrationFile agent_registration_file
  | CreateDataSource template string data_source_context

record store =
  agents :: "string \<rightharpoonup> agent"
  agentMetadata :: "string \<rightharpoonup> agent_metadata"
  feedbacks :: "string \<rightharpoonup> feedback"
  feedbackResponses :: "string \<rightharpoonup> feedback_response"
  agentStats :: "string \<rightharpoonup> agent_stats"
  protocols :: "string \<rightharpoonup> protocol"
  globalStats :: "string \<rightharpoonup> global_stats"
  registrationFiles :: "string \<rightharpoonup> agent_registration_file"
  effects :: "effect list"

definition empty_store :: store where
  "empty_store =
     \<lparr>agents = Map.empty, agentMetadata = Map.empty, feedbacks = Map.empty,
      feedbackResponses = Map.empty, agentStats = Map.empty, protocols = Map.empty,
      globalStats = Map.empty, registrationFiles = Map.empty, effects = []\<rparr>"

definition saveAgent :: "agent \<Rightarrow> store \<Rightarrow> store" where
  "saveAgent a s = s\<lparr>agents := (agents s)(a_id a \<mapsto> a), effects := effects s @ [SaveAgent a]\<rparr>"

definition saveAgentMetadata :: "agent_metadata \<Rightarrow> store \<Rightarrow> store" where
  "saveAgentMetadata m s =
     s\<lparr>agentMetadata := (agentMetadata s)(m_id m \<mapsto> m),
       effects := effects s @ [SaveAgentMetadata m]\<rparr>"

definition saveFeedback :: "feedback \<Rightarrow> store \<Rightarrow> store" where
  "saveFeedback f s =
     s\<lparr>feedbacks := (feedbacks s)(f_id f \<mapsto> f), effects := effects s @ [SaveFeedback f]\<rparr>"

definition saveFeedbackResponse :: "feedback_response \<Rightarrow> store \<Rightarrow> store" where
  "saveFeedbackResponse r s =
     s\<lparr>feedbackResponses := (feedbackResponses s)(r_id r \<mapsto> r),
       effects := effects s @ [SaveFeedbackResponse r]\<rparr>"

definition saveAgentStats :: "agent_stats \<Rightarrow> store \<Rightarrow> store" where
  "saveAgentStats st s =
     s\<lparr>agentStats := (agentStats s)(st_id st \<mapsto> st),
       effects := effects s @ [SaveAgentStats st]\<rparr>"

definition saveProtocol :: "protocol \<Rightarrow> store \<Rightarrow> store" where
  "saveProtocol p s =
     s\<lparr>protocols := (protocols s)(p_id p \<mapsto> p), effects := effects s @ [SaveProtocol p]\<rparr>"

definition saveGlobalStats :: "global_stats \<Rightarrow> store \<Rightarrow> store" where
  "saveGlobalStats g s =
     s\<lparr>globalStats := (globalStats s)(g_id g \<mapsto> g),
       effects := effects s @ [SaveGlobalStats g]\<rparr>"

definition saveAgentRegistrationFile :: "agent_registration_file \<Rightarrow> store \<Rightarrow> store" where
  "saveAgentRegistrationFile rf s =
     s\<lparr>registrationFiles := (registrationFiles s)(rf_id rf \<mapsto> rf),
       effects := effects s @ [SaveAgentRegistrationFile rf]\<rparr>"

definition createWithContext :: "template \<Rightarrow> string \<Rightarrow> data_source_context \<Rightarrow> store \<Rightarrow> store" where
  "createWithContext t param ctx s = s\<lparr>effects := effects s @ [CreateDataSource t param ctx]\<rparr>"

text \<open>What a handler does when the runtime traps inside it.\<close>

datatype error =
    DivisionByZero
  | IndexOutOfRange
  | JSONValueIsNotABoolean
  | InvalidBigIntString
  | MissingContextKey

section \<open>Events\<close>

record registered =
  reg_agentId :: int
  reg_owner :: bytes
  reg_tokenURI :: string
  reg_timestamp :: int
  reg_txHash :: bytes

record metadata_set =
  ms_agentId :: int
  ms_key :: string
  ms_value :: bytes
  ms_timestamp :: int

record uri_updated =
  uu_agentId :: int
  uu_newUri :: string
  uu_timestamp :: int
  uu_txHash :: bytes

record transfer =
  tr_from :: bytes
  tr_to :: bytes
  tr_tokenId :: int
  tr_timestamp :: int

record approval =
  ap_tokenId :: int
  ap_approved :: bytes
  ap_timestamp :: int

record new_feedback =
  nf_agentId :: int
  nf_clientAddress :: bytes
  nf_score :: int
  nf_tag1 :: bytes
  nf_tag2 :: bytes
  nf_feedbackUri :: string
  nf_feedbackHash :: bytes
  nf_timestamp :: int
  nf_txHash :: bytes

record feedback_revoked =
  fr_agentId :: int
  fr_clientAddress :: bytes
  fr_feedbackIndex :: int
  fr_timestamp :: int

record response_appended =
  ra_agentId :: int
  ra_clientAddress :: bytes
  ra_feedbackIndex :: int
  ra_responder :: bytes
  ra_responseUri :: string
  ra_responseHash :: bytes
  ra_timestamp :: int

section \<open>Identity registry handlers\<close>

definition agentEntityId :: "int \<Rightarrow> int \<Rightarrow> string" where
  "agentEntityId chainId agentId = toString chainId @ '':'' @ toString agentId"

definition fileIdOf :: "string \<Rightarrow> string \<Rightarrow> string" where
  "fileIdOf txHash cid = txHash @ '':'' @ cid"

definition newGlobalStats :: global_stats where
  "newGlobalStats =
     \<lparr>g_id = ''global'', g_totalAgents = 0, g_totalFeedback = 0, g_totalValidations = 0,
      g_totalProtocols = 0, g_agents = [], g_tags = [], g_updatedAt = 0\<rparr>"

definition newProtocol :: "host \<Rightarrow> int \<Rightarrow> protocol" where
  "newProtocol h chainId =
     (let addresses = getContractAddresses h chainId in
      \<lparr>p_id = toString chainId, p_chainId = chainId, p_name = getChainName h chainId,
       p_identityRegistry = ca_identityRegistry addresses,
       p_reputationRegistry = ca_reputationRegistry addresses,
       p_validationRegistry = ca_validationRegistry addresses,
       p_totalAgents = 0, p_totalFeedback = 0, p_totalValidations = 0,
       p_agents = [], p_tags = [], p_updatedAt = 0\<rparr>)"

text \<open>\<open>updateProtocolStats\<close> of \<open>identity-registry.ts\<close>.\<close>

definition identity_updateProtocolStats :: "host \<Rightarrow> int \<Rightarrow> agent \<Rightarrow> int \<Rightarrow> store \<Rightarrow> store" where
  "identity_updateProtocolStats h chainId agent timestamp s =
     (if \<not> isSupportedChain h chainId then s
      else
        let protocolId = toString chainId;
            loaded = protocols s protocolId;
            isNewProtocol = (loaded = None);
            protocol0 = (case loaded of None \<Rightarrow> newProtocol h chainId | Some p \<Rightarrow> p);
            protocol1 = protocol0\<lparr>p_totalAgents := p_totalAgents protocol0 + 1\<rparr>;
            currentAgents = p_agents protocol1 @ [a_id agent];
            protocol2 = protocol1\<lparr>p_agents := currentAgents, p_updatedAt := timestamp\<rparr>;
            s1 = saveProtocol protocol2 s
        in if isNewProtocol then
             let globalStats0 =
                   (case globalStats s1 ''global'' of None \<Rightarrow> newGlobalStats | Some g \<Rightarrow> g);
                 globalStats1 =
                   globalStats0\<lparr>g_totalProtocols := g_totalProtocols globalStats0 + 1,
                                g_updatedAt := timestamp\<rparr>
             in saveGlobalStats globalStats1 s1
           else s1)"

definition registrationContext :: "string \<Rightarrow> string \<Rightarrow> string \<Rightarrow> int \<Rightarrow> data_source_context" where
  "registrationContext agentEntId cid txHash timestamp =
     [(''agentId'', CtxString agentEntId), (''cid'', CtxString cid),
      (''txHash'', CtxString txHash), (''timestamp'', CtxBigInt timestamp)]"

text \<open>
  The block that requests the off-chain file and then links the agent to it; the handlers
  repeat it for IPFS and for Arweave. It returns the agent object as well, since the
  second block of a handler continues with the object the first one updated.
\<close>

definition linkRegistrationFile ::
  "template \<Rightarrow> string \<Rightarrow> string \<Rightarrow> string \<Rightarrow> int \<Rightarrow> agent \<times> store \<Rightarrow> agent \<times> store" where
  "linkRegistrationFile t cid agentEntId txHash timestamp as =
     (if length cid > 0 then
        let fileId = fileIdOf txHash cid;
            s1 = createWithContext t cid (registrationContext agentEntId cid txHash timestamp) (snd as);
            agent1 = (fst as)\<lparr>a_registrationFile := Some fileId\<rparr>
        in (agent1, saveAgent agent1 s1)
      else as)"

definition handleAgentRegistered :: "host \<Rightarrow> registered \<Rightarrow> store \<Rightarrow> store" where
  "handleAgentRegistered h event s =
     (let agentId = reg_agentId event;
          chainId = getChainId h;
          agentEntId = agentEntityId chainId agentId;
          agent0 =
            (case agents s agentEntId of
               None \<Rightarrow>
                 \<lparr>a_id = agentEntId, a_chainId = chainId, a_agentId = agentId,
                  a_createdAt = reg_timestamp event, a_operators = [], a_totalFeedback = 0,
                  a_lastActivity = reg_timestamp event, a_registrationFile = None,
                  a_owner = [], a_agentURI = [], a_agentURIType = [], a_updatedAt = 0\<rparr>
             | Some a \<Rightarrow> a);
          agent1 =
            agent0\<lparr>a_owner := reg_owner event, a_agentURI := reg_tokenURI event,
                   a_agentURIType := determineUriType h (reg_tokenURI event),
                   a_updatedAt := reg_timestamp event\<rparr>;
          s1 = saveAgent agent1 s;
          s2 = identity_updateProtocolStats h chainId agent1 (reg_timestamp event) s1;
          s3 = identity_updateProtocolStats h chainId agent1 (reg_timestamp event) s2;
          globalStats0 = (case globalStats s3 ''global'' of None \<Rightarrow> newGlobalStats | Some g \<Rightarrow> g);
          globalStats1 = globalStats0\<lparr>g_totalAgents := g_totalAgents globalStats0 + 1\<rparr>;
          currentGlobalAgents = g_agents globalStats1 @ [a_id agent1];
          globalStats2 =
            globalStats1\<lparr>g_agents := currentGlobalAgents, g_updatedAt := reg_timestamp event\<rparr>;
          s4 = saveGlobalStats globalStats2 s3;
          as5 =
            (if length (reg_tokenURI event) > 0 \<and> isIpfsUri h (reg_tokenURI event) then
               linkRegistrationFile RegistrationFile (extractIpfsHash h (reg_tokenURI event))
                 agentEntId (reg_txHash event) (reg_timestamp event) (agent1, s4)
             else (agent1, s4));
          as6 =
            (if length (reg_tokenURI event) > 0 \<and> isArweaveUri h (reg_tokenURI event) then
               linkRegistrationFile ArweaveRegistrationFile
                 (extractArweaveTxId h (reg_tokenURI event))
                 agentEntId (reg_txHash event) (reg_timestamp event) as5
             else as5)
      in snd as6)"

definition handleMetadataSet :: "host \<Rightarrow> metadata_set \<Rightarrow> store \<Rightarrow> store" where
  "handleMetadataSet h event s =
     (let agentId = ms_agentId event;
          chainId = getChainId h;
          agentEntId = agentEntityId chainId agentId
      in case agents s agentEntId of
           None \<Rightarrow> s
         | Some agent \<Rightarrow>
             let metadataId = toString agentId @ '':'' @ ms_key event;
                 metadata =
                   \<lparr>m_id = metadataId, m_agent = agentEntId, m_key = ms_key event,
                    m_value = ms_value event, m_updatedAt = ms_timestamp event\<rparr>;
                 s1 = saveAgentMetadata metadata s
             in saveAgent (agent\<lparr>a_updatedAt := ms_timestamp event\<rparr>) s1)"

definition handleUriUpdated :: "host \<Rightarrow> uri_updated \<Rightarrow> store \<Rightarrow> store" where
  "handleUriUpdated h event s =
     (let agentId = uu_agentId event;
          chainId = getChainId h;
          agentEntId = agentEntityId chainId agentId
      in case agents s agentEntId of
           None \<Rightarrow> s
         | Some agent \<Rightarrow>
             let agent1 =
                   agent\<lparr>a_agentURI := uu_newUri event, a_updatedAt := uu_timestamp event\<rparr>;
                 s1 = saveAgent agent1 s;
                 as2 =
                   (if isIpfsUri h (uu_newUri event) then
                      let agent2 = agent1\<lparr>a_agentURIType := ''ipfs''\<rparr> in
                      linkRegistrationFile RegistrationFile (extractIpfsHash h (uu_newUri event))
                        agentEntId (uu_txHash event) (uu_timestamp event)
                        (agent2, saveAgent agent2 s1)
                    else (agent1, s1));
                 as3 =
                   (if isArweaveUri h (uu_newUri event) then
                      let agent3 = (fst as2)\<lparr>a_agentURIType := ''arweave''\<rparr> in
                      linkRegistrationFile ArweaveRegistrationFile
                        (extractArweaveTxId h (uu_newUri event))
                        agentEntId (uu_txHash event) (uu_timestamp event)
                        (agent3, saveAgent agent3 (snd as2))
                    else as2)
             in snd as3)"

definition handleTransfer :: "host \<Rightarrow> transfer \<Rightarrow> store \<Rightarrow> store" where
  "handleTransfer h event s =
     (if tr_from event = zeroAddressHex then s
      else
        let tokenId = tr_tokenId event;
            chainId = getChainId h;
            agentEntId = agentEntityId chainId tokenId
        in case agents s agentEntId of
             None \<Rightarrow> s
           | Some agent \<Rightarrow>
               saveAgent (agent\<lparr>a_owner := tr_to event, a_updatedAt := tr_timestamp event\<rparr>) s)"

text \<open>The search loop of \<open>handleApproval\<close>, which leaves at the first match.\<close>

fun operatorFound :: "bytes list \<Rightarrow> bytes \<Rightarrow> bool" where
  "operatorFound [] approved = False"
| "operatorFound (x # xs) approved = (if x = approved then True else operatorFound xs approved)"

text \<open>The loop of \<open>handleApproval\<close> that copies every operator other than \<open>approved\<close>.\<close>

fun removeOperator :: "bytes list \<Rightarrow> bytes \<Rightarrow> bytes list" where
  "removeOperator [] approved = []"
| "removeOperator (x # xs) approved =
     (if x \<noteq> approved then x # removeOperator xs approved else removeOperator xs approved)"

definition handleApproval :: "host \<Rightarrow> approval \<Rightarrow> store \<Rightarrow> store" where
  "handleApproval h event s =
     (let tokenId = ap_tokenId event;
          chainId = getChainId h;
          agentEntId = agentEntityId chainId tokenId
      in case agents s agentEntId of
           None \<Rightarrow> s
         | Some agent \<Rightarrow>
             let operators = a_operators agent;
                 approved = ap_approved event;
                 operators1 =
                   (if approved \<noteq> zeroAddressHex then
                      (if \<not> operatorFound operators approved then operators @ [approved]
                       else operators)
                    else removeOperator operators approved)
             in saveAgent (agent\<lparr>a_operators := operators1, a_updatedAt := ap_timestamp event\<rparr>) s)"

text \<open>\<open>handleApprovalForAll\<close> only logs.\<close>

definition handleApprovalForAll :: "host \<Rightarrow> store \<Rightarrow> store" where
  "handleApprovalForAll h s = s"

section \<open>Reputation registry handlers\<close>

definition feedbackEntityId :: "string \<Rightarrow> bytes \<Rightarrow> int \<Rightarrow> string" where
  "feedbackEntityId agentEntId clientAddress feedbackIndex =
     agentEntId @ '':'' @ clientAddress @ '':'' @ toString feedbackIndex"

text \<open>The histogram bucket that \<open>updateAgentStats\<close> increments for a score.\<close>

definition bucketIndex :: "int \<Rightarrow> nat" where
  "bucketIndex score =
     (if score \<le> 20 then 0 else if score \<le> 40 then 1 else if score \<le> 60 then 2
      else if score \<le> 80 then 3 else 4)"

text \<open>
  \<open>updateAgentStats\<close>. An array access out of range and a trap of the \<open>BigDecimal\<close> division
  are results of the model. A histogram entry is an \<open>i32\<close>, and adding 1 to it wraps.
\<close>

definition updateAgentStats :: "host \<Rightarrow> agent \<Rightarrow> int \<Rightarrow> int \<Rightarrow> store \<Rightarrow> error + store" where
  "updateAgentStats h agent score timestamp s =
     (let agent1 =
            agent\<lparr>a_totalFeedback := a_totalFeedback agent + 1, a_lastActivity := timestamp,
                  a_updatedAt := timestamp\<rparr>;
          s1 = saveAgent agent1 s;
          statsId = a_id agent1;
          stats0 =
            (case agentStats s1 statsId of
               None \<Rightarrow>
                 \<lparr>st_id = statsId, st_agent = a_id agent1, st_totalFeedback = 0,
                  st_averageScore = bd_fromString h ''0'',
                  st_scoreDistribution = [0, 0, 0, 0, 0],
                  st_totalValidations = 0, st_completedValidations = 0,
                  st_averageValidationScore = bd_fromString h ''0'',
                  st_lastActivity = timestamp, st_updatedAt = 0\<rparr>
             | Some st \<Rightarrow> st);
          stats1 = stats0\<lparr>st_totalFeedback := st_totalFeedback stats0 + 1\<rparr>;
          distribution = st_scoreDistribution stats1;
          i = bucketIndex score
      in if \<not> i < length distribution then Inl IndexOutOfRange
         else
           let stats2 = stats1\<lparr>st_scoreDistribution := distribution[i := distribution ! i + 1]\<rparr>;
               totalScore =
                 bd_times h (st_averageScore stats2)
                   (bd_fromString h (toString (st_totalFeedback stats2 - 1)));
               newTotalScore = bd_plus h totalScore (bd_fromString h (toString score))
           in (case bd_div h newTotalScore
                       (bd_fromString h (toString (st_totalFeedback stats2))) of
                 None \<Rightarrow> Inl DivisionByZero
               | Some newAverage \<Rightarrow>
                   Inr (saveAgentStats
                         (stats2\<lparr>st_averageScore := newAverage, st_lastActivity := timestamp,
                                 st_updatedAt := timestamp\<rparr>)
                         s1)))"

definition updateAgentStatsAfterRevocation :: "agent \<Rightarrow> int \<Rightarrow> int \<Rightarrow> store \<Rightarrow> store" where
  "updateAgentStatsAfterRevocation agent score timestamp s =
     (let agent1 = agent\<lparr>a_totalFeedback := a_totalFeedback agent - 1, a_updatedAt := timestamp\<rparr>;
          s1 = saveAgent agent1 s
      in case agentStats s1 (a_id agent1) of
           None \<Rightarrow> s1
         | Some stats \<Rightarrow>
             saveAgentStats
               (stats\<lparr>st_totalFeedback := st_totalFeedback stats - 1, st_updatedAt := timestamp\<rparr>)
               s1)"

text \<open>The block that adds one tag to a tag array; the source repeats it for each tag.\<close>

definition addTag :: "bytes \<Rightarrow> string list \<Rightarrow> string list" where
  "addTag tag currentTags =
     (if tag \<noteq> zeroTag then
        (if tag \<notin> set currentTags then currentTags @ [tag] else currentTags)
      else currentTags)"

text \<open>\<open>updateProtocolStats\<close> of \<open>reputation-registry.ts\<close>.\<close>

definition reputation_updateProtocolStats ::
  "host \<Rightarrow> int \<Rightarrow> agent \<Rightarrow> int \<Rightarrow> bytes \<Rightarrow> bytes \<Rightarrow> store \<Rightarrow> store" where
  "reputation_updateProtocolStats h chainId agent timestamp tag1 tag2 s =
     (if \<not> isSupportedChain h chainId then s
      else
        let protocolId = toString chainId;
            protocol0 =
              (case protocols s protocolId of None \<Rightarrow> newProtocol h chainId | Some p \<Rightarrow> p);
            protocol1 = protocol0\<lparr>p_totalFeedback := p_totalFeedback protocol0 + 1\<rparr>;
            currentTags = addTag tag2 (addTag tag1 (p_tags protocol1))
        in saveProtocol (protocol1\<lparr>p_tags := currentTags, p_updatedAt := timestamp\<rparr>) s)"

definition feedbackContext ::
  "string \<Rightarrow> string \<Rightarrow> string \<Rightarrow> int \<Rightarrow> feedback \<Rightarrow> data_source_context" where
  "feedbackContext feedbackId cid txHash timestamp fb =
     [(''feedbackId'', CtxString feedbackId), (''cid'', CtxString cid),
      (''txHash'', CtxString txHash), (''timestamp'', CtxBigInt timestamp),
      (''tag1OnChain'', CtxString (case f_tag1 fb of None \<Rightarrow> [] | Some t \<Rightarrow> t)),
      (''tag2OnChain'', CtxString (case f_tag2 fb of None \<Rightarrow> [] | Some t \<Rightarrow> t))]"

text \<open>The block that requests the feedback file and then links the feedback to it.\<close>

definition linkFeedbackFile ::
  "template \<Rightarrow> string \<Rightarrow> string \<Rightarrow> string \<Rightarrow> int \<Rightarrow> feedback \<Rightarrow> store \<Rightarrow> store" where
  "linkFeedbackFile t cid feedbackId txHash timestamp fb s =
     (if length cid > 0 then
        let fileId = fileIdOf txHash cid;
            s1 = createWithContext t cid (feedbackContext feedbackId cid txHash timestamp fb) s
        in saveFeedback (fb\<lparr>f_feedbackFile := Some fileId\<rparr>) s1
      else s)"

definition handleNewFeedback :: "host \<Rightarrow> new_feedback \<Rightarrow> store \<Rightarrow> error + store" where
  "handleNewFeedback h event s =
     (let agentId = nf_agentId event;
          clientAddress = nf_clientAddress event;
          chainId = getChainId h;
          agentEntId = agentEntityId chainId agentId
      in case agents s agentEntId of
           None \<Rightarrow> Inr s
         | Some agent \<Rightarrow>
             let feedbackId = feedbackEntityId agentEntId clientAddress (a_totalFeedback agent + 1);
                 fb =
                   \<lparr>f_id = feedbackId, f_agent = agentEntId, f_clientAddress = clientAddress,
                    f_score = nf_score event,
                    f_tag1 = Some (bytes32ToString h (nf_tag1 event)),
                    f_tag2 = Some (bytes32ToString h (nf_tag2 event)),
                    f_feedbackUri = nf_feedbackUri event,
                    f_feedbackURIType =
                      (if length (nf_feedbackUri event) > 0
                       then determineUriType h (nf_feedbackUri event) else ''unknown''),
                    f_feedbackHash = nf_feedbackHash event, f_isRevoked = False,
                    f_createdAt = nf_timestamp event, f_revokedAt = None,
                    f_feedbackFile = None\<rparr>;
                 s1 = saveFeedback fb s;
                 s2 =
                   (if length (nf_feedbackUri event) > 0 \<and> isIpfsUri h (nf_feedbackUri event) then
                      linkFeedbackFile FeedbackFileTemplate
                        (extractIpfsHash h (nf_feedbackUri event))
                        feedbackId (nf_txHash event) (nf_timestamp event) fb s1
                    else if length (nf_feedbackUri event) > 0
                            \<and> isArweaveUri h (nf_feedbackUri event) then
                      linkFeedbackFile ArweaveFeedbackFileTemplate
                        (extractArweaveTxId h (nf_feedbackUri event))
                        feedbackId (nf_txHash event) (nf_timestamp event) fb s1
                    else s1)
             in (case updateAgentStats h agent (nf_score event) (nf_timestamp event) s2 of
                  Inl e \<Rightarrow> Inl e
                | Inr s3 \<Rightarrow>
                    let s4 =
                          reputation_updateProtocolStats h chainId agent (nf_timestamp event)
                            (nf_tag1 event) (nf_tag2 event) s3;
                        globalStats0 =
                          (case globalStats s4 ''global'' of
                             None \<Rightarrow> newGlobalStats | Some g \<Rightarrow> g);
                        globalStats1 =
                          globalStats0\<lparr>g_totalFeedback := g_totalFeedback globalStats0 + 1\<rparr>;
                        currentGlobalTags =
                          addTag (nf_tag2 event) (addTag (nf_tag1 event) (g_tags globalStats1))
                    in Inr (saveGlobalStats
                             (globalStats1\<lparr>g_tags := currentGlobalTags,
                                           g_updatedAt := nf_timestamp event\<rparr>)
                             s4)))"

definition handleFeedbackRevoked :: "host \<Rightarrow> feedback_revoked \<Rightarrow> store \<Rightarrow> store" where
  "handleFeedbackRevoked h event s =
     (let agentId = fr_agentId event;
          clientAddress = fr_clientAddress event;
          feedbackIndex = fr_feedbackIndex event;
          chainId = getChainId h;
          agentEntId = agentEntityId chainId agentId;
          feedbackId = feedbackEntityId agentEntId clientAddress feedbackIndex
      in case feedbacks s feedbackId of
           None \<Rightarrow> s
         | Some fb \<Rightarrow>
             let fb1 = fb\<lparr>f_isRevoked := True, f_revokedAt := Some (fr_timestamp event)\<rparr>;
                 s1 = saveFeedback fb1 s
             in (case agents s1 agentEntId of
                  None \<Rightarrow> s1
                | Some agent \<Rightarrow>
                    updateAgentStatsAfterRevocation agent (f_score fb1) (fr_timestamp event) s1))"

definition handleResponseAppended :: "host \<Rightarrow> response_appended \<Rightarrow> store \<Rightarrow> store" where
  "handleResponseAppended h event s =
     (let agentId = ra_agentId event;
          clientAddress = ra_clientAddress event;
          feedbackIndex = ra_feedbackIndex event;
          chainId = getChainId h;
          agentEntId = agentEntityId chainId agentId;
          feedbackId = feedbackEntityId agentEntId clientAddress feedbackIndex
      in case feedbacks s feedbackId of
           None \<Rightarrow> s
         | Some fb \<Rightarrow>
             let responseId = feedbackId @ '':'' @ toString (ra_timestamp event)
             in saveFeedbackResponse
                  \<lparr>r_id = responseId, r_feedback = feedbackId, r_responder = ra_responder event,
                   r_responseUri = ra_responseUri event, r_responseHash = ra_responseHash event,
                   r_createdAt = ra_timestamp event\<rparr>
                  s)"

section \<open>The event stream\<close>

datatype event =
    Registered registered
  | MetadataSet metadata_set
  | UriUpdated uri_updated
  | Transfer transfer
  | Approval approval
  | ApprovalForAll
  | NewFeedback new_feedback
  | FeedbackRevoked feedback_revoked
  | ResponseAppended response_appended

fun handle :: "host \<Rightarrow> event \<Rightarrow> store \<Rightarrow> error + store" where
  "handle h (Registered e) s = Inr (handleAgentRegistered h e s)"
| "handle h (MetadataSet e) s = Inr (handleMetadataSet h e s)"
| "handle h (UriUpdated e) s = Inr (handleUriUpdated h e s)"
| "handle h (Transfer e) s = Inr (handleTransfer h e s)"
| "handle h (Approval e) s = Inr (handleApproval h e s)"
| "handle h ApprovalForAll s = Inr (handleApprovalForAll h s)"
| "handle h (NewFeedback e) s = handleNewFeedback h e s"
| "handle h (FeedbackRevoked e) s = Inr (handleFeedbackRevoked h e s)"
| "handle h (ResponseAppended e) s = Inr (handleResponseAppended h e s)"

text \<open>Events are handled one at a time, in order; a trap ends the run.\<close>

fun run :: "host \<Rightarrow> event list \<Rightarrow> store \<Rightarrow> error + store" where
  "run h [] s = Inr s"
| "run h (e # es) s = (case handle h e s of Inl err \<Rightarrow> Inl err | Inr s' \<Rightarrow> run h es s')"

section \<open>The registration file parser\<close>

text \<open>
  \<open>json.try_fromBytes\<close> belongs to the runtime: the parser below starts from its result,
  \<open>None\<close> when the bytes are not JSON. A number keeps its source text.
\<close>

datatype json =
    JNull
  | JBool bool
  | JNumber string
  | JString string
  | JArray "json list"
  | JObject "(string \<times> json) list"

datatype json_kind = KNULL | KBOOL | KNUMBER | KSTRING | KARRAY | KOBJECT

fun kind :: "json \<Rightarrow> json_kind" where
  "kind JNull = KNULL"
| "kind (JBool b) = KBOOL"
| "kind (JNumber n) = KNUMBER"
| "kind (JString str) = KSTRING"
| "kind (JArray xs) = KARRAY"
| "kind (JObject kvs) = KOBJECT"

text \<open>\<open>TypedMap.get\<close>: the value of the first entry with the key, or null.\<close>

definition get :: "(string \<times> json) list \<Rightarrow> string \<Rightarrow> json option" where
  "get obj key = map_of obj key"

text \<open>The test \<open>v && !v.isNull() && v.kind == JSONValueKind.STRING\<close>, with the string.\<close>

fun stringField :: "json option \<Rightarrow> string option" where
  "stringField (Some (JString str)) = Some str"
| "stringField v = None"

text \<open>The test \<open>v && !v.isNull() && v.kind == JSONValueKind.ARRAY\<close>, with the array.\<close>

fun arrayField :: "json option \<Rightarrow> json list option" where
  "arrayField (Some (JArray xs)) = Some xs"
| "arrayField v = None"

text \<open>The loops that keep the string elements of an array.\<close>

fun stringElements :: "json list \<Rightarrow> string list" where
  "stringElements [] = []"
| "stringElements (JString str # xs) = str # stringElements xs"
| "stringElements (x # xs) = stringElements xs"

text \<open>
  \<open>v.toBool()\<close> behind the test \<open>v && !v.isNull()\<close>: the field stays unset for an absent
  or null value, and \<open>toBool\<close> traps on a value that is not a boolean.
\<close>

fun boolField :: "json option \<Rightarrow> error + bool option" where
  "boolField None = Inr None"
| "boolField (Some JNull) = Inr None"
| "boolField (Some (JBool b)) = Inr (Some b)"
| "boolField (Some v) = Inl JSONValueIsNotABoolean"

definition startsWith :: "string \<Rightarrow> string \<Rightarrow> bool" where
  "startsWith str p = (take (length p) str = p)"

text \<open>\<open>String.split\<close> with a separator of one character.\<close>

fun split :: "char \<Rightarrow> string \<Rightarrow> string list" where
  "split sep [] = [[]]"
| "split sep (c # cs) =
     (if c = sep then [] # split sep cs
      else (case split sep cs of [] \<Rightarrow> [[c]] | p # ps \<Rightarrow> (c # p) # ps))"

definition isDigit :: "char \<Rightarrow> bool" where
  "isDigit c = (c \<in> set ''0123456789'')"

definition digitValue :: "char \<Rightarrow> nat" where
  "digitValue c = of_char c - 48"

definition digitsValue :: "string \<Rightarrow> nat" where
  "digitsValue ds = foldl (\<lambda>acc c. 10 * acc + digitValue c) 0 ds"

text \<open>
  Modelled from the spec: \<open>BigInt.fromString\<close> is a function of the runtime, absent from the
  sources; the chain id is parsed as an arbitrary-precision integer. Here it reads a decimal
  numeral with an optional minus sign, and any other text is a trap.
\<close>

definition BigInt_fromString :: "string \<Rightarrow> int option" where
  "BigInt_fromString str =
     (case str of
        [] \<Rightarrow> None
      | c # ds \<Rightarrow>
          if c = CHR ''-'' then
            (if ds \<noteq> [] \<and> list_all isDigit ds then Some (- int (digitsValue ds)) else None)
          else if list_all isDigit str then Some (int (digitsValue str)) else None)"

text \<open>The \<open>agentWallet\<close> branch of the endpoint loop, from the endpoint string on.\<close>

definition agentWalletEndpoint ::
  "host \<Rightarrow> string \<Rightarrow> agent_registration_file \<Rightarrow> error + agent_registration_file" where
  "agentWalletEndpoint h walletStr metadata =
     (if startsWith walletStr ''eip155:'' then
        let parts = split CHR '':'' walletStr;
            hasAddress = length parts > 2
        in if hasAddress then
             let addressPart = parts ! 2
             in if startsWith addressPart ''0x'' \<and> length addressPart = 42 then
                  let metadata1 =
                        metadata\<lparr>rf_agentWallet := Some (fromHexString h addressPart)\<rparr>;
                      chainIdPart = parts ! 1
                  in if length chainIdPart > 0 then
                       (case BigInt_fromString chainIdPart of
                          None \<Rightarrow> Inl InvalidBigIntString
                        | Some n \<Rightarrow> Inr (metadata1\<lparr>rf_agentWalletChainId := Some n\<rparr>))
                     else Inr metadata1
                else Inr metadata
           else Inr metadata
      else if startsWith walletStr ''0x'' \<and> length walletStr = 42 then
        Inr (metadata\<lparr>rf_agentWallet := Some (fromHexString h walletStr)\<rparr>)
      else Inr metadata)"

definition setIfSome :: "'a option \<Rightarrow> 'a option \<Rightarrow> 'a option" where
  "setIfSome new old = (case new of None \<Rightarrow> old | Some v \<Rightarrow> Some v)"

definition setListIfSome :: "json list option \<Rightarrow> string list \<Rightarrow> string list" where
  "setListIfSome new old = (case new of None \<Rightarrow> old | Some xs \<Rightarrow> stringElements xs)"

text \<open>The body of the endpoint loop for one element of the \<open>endpoints\<close> array.\<close>

definition parseEndpoint ::
  "host \<Rightarrow> json \<Rightarrow> agent_registration_file \<Rightarrow> error + agent_registration_file" where
  "parseEndpoint h endpointValue metadata =
     (case endpointValue of
        JObject endpoint \<Rightarrow>
          (case stringField (get endpoint ''name'') of
             None \<Rightarrow> Inr metadata
           | Some nameStr \<Rightarrow>
               if nameStr = ''MCP'' then
                 Inr (metadata
                   \<lparr>rf_mcpEndpoint :=
                      setIfSome (stringField (get endpoint ''endpoint'')) (rf_mcpEndpoint metadata),
                    rf_mcpVersion :=
                      setIfSome (stringField (get endpoint ''version'')) (rf_mcpVersion metadata),
                    rf_mcpTools :=
                      setListIfSome (arrayField (get endpoint ''mcpTools'')) (rf_mcpTools metadata),
                    rf_mcpPrompts :=
                      setListIfSome (arrayField (get endpoint ''mcpPrompts''))
                        (rf_mcpPrompts metadata),
                    rf_mcpResources :=
                      setListIfSome (arrayField (get endpoint ''mcpResources''))
                        (rf_mcpResources metadata)\<rparr>)
               else if nameStr = ''A2A'' then
                 Inr (metadata
                   \<lparr>rf_a2aEndpoint :=
                      setIfSome (stringField (get endpoint ''endpoint'')) (rf_a2aEndpoint metadata),
                    rf_a2aVersion :=
                      setIfSome (stringField (get endpoint ''version'')) (rf_a2aVersion metadata),
                    rf_a2aSkills :=
                      setListIfSome (arrayField (get endpoint ''a2aSkills''))
                        (rf_a2aSkills metadata)\<rparr>)
               else if nameStr = ''agentWallet'' then
                 (case stringField (get endpoint ''endpoint'') of
                    None \<Rightarrow> Inr metadata
                  | Some walletStr \<Rightarrow> agentWalletEndpoint h walletStr metadata)
               else if nameStr = ''ENS'' then
                 Inr (metadata
                   \<lparr>rf_ens := setIfSome (stringField (get endpoint ''endpoint'')) (rf_ens metadata)\<rparr>)
               else if nameStr = ''DID'' then
                 Inr (metadata
                   \<lparr>rf_did := setIfSome (stringField (get endpoint ''endpoint'')) (rf_did metadata)\<rparr>)
               else Inr metadata)
      | _ \<Rightarrow> Inr metadata)"

fun parseEndpoints ::
  "host \<Rightarrow> json list \<Rightarrow> agent_registration_file \<Rightarrow> error + agent_registration_file" where
  "parseEndpoints h [] metadata = Inr metadata"
| "parseEndpoints h (e # es) metadata =
     (case parseEndpoint h e metadata of
        Inl err \<Rightarrow> Inl err
      | Inr metadata1 \<Rightarrow> parseEndpoints h es metadata1)"

definition newAgentRegistrationFile ::
  "string \<Rightarrow> string \<Rightarrow> string \<Rightarrow> int \<Rightarrow> agent_registration_file" where
  "newAgentRegistrationFile fileId agentId cid timestamp =
     \<lparr>rf_id = fileId, rf_cid = cid, rf_agentId = agentId, rf_createdAt = timestamp,
      rf_supportedTrusts = [], rf_mcpTools = [], rf_mcpPrompts = [], rf_mcpResources = [],
      rf_a2aSkills = [], rf_name = None, rf_description = None, rf_image = None,
      rf_active = None, rf_x402support = None, rf_mcpEndpoint = None, rf_mcpVersion = None,
      rf_a2aEndpoint = None, rf_a2aVersion = None, rf_agentWallet = None,
      rf_agentWalletChainId = None, rf_ens = None, rf_did = None\<rparr>"

text \<open>\<open>parseRegistrationJSON\<close>: \<open>Inr None\<close> is its \<open>null\<close> result.\<close>

definition parseRegistrationJSON ::
  "host \<Rightarrow> json option \<Rightarrow> string \<Rightarrow> string \<Rightarrow> string \<Rightarrow> int
     \<Rightarrow> error + agent_registration_file option" where
  "parseRegistrationJSON h content fileId agentId cid timestamp =
     (let metadata = newAgentRegistrationFile fileId agentId cid timestamp
      in case content of
           None \<Rightarrow> Inr None
         | Some (JObject obj) \<Rightarrow>
             let metadata1 =
                   metadata\<lparr>rf_name := setIfSome (stringField (get obj ''name'')) (rf_name metadata),
                            rf_description :=
                              setIfSome (stringField (get obj ''description''))
                                (rf_description metadata),
                            rf_image :=
                              setIfSome (stringField (get obj ''image'')) (rf_image metadata)\<rparr>
             in (case boolField (get obj ''active'') of
                   Inl err \<Rightarrow> Inl err
                 | Inr active \<Rightarrow>
                     (case boolField (get obj ''x402support'') of
                        Inl err \<Rightarrow> Inl err
                      | Inr x402support \<Rightarrow>
                          let metadata2 =
                                metadata1\<lparr>rf_active := setIfSome active (rf_active metadata1),
                                          rf_x402support :=
                                            setIfSome x402support (rf_x402support metadata1)\<rparr>;
                              supportedTrusts =
                                (case get obj ''supportedTrusts'' of
                                   None \<Rightarrow> get obj ''supportedTrust''
                                 | Some JNull \<Rightarrow> get obj ''supportedTrust''
                                 | Some v \<Rightarrow> Some v);
                              metadata3 =
                                metadata2\<lparr>rf_supportedTrusts :=
                                            setListIfSome (arrayField supportedTrusts)
                                              (rf_supportedTrusts metadata2)\<rparr>
                          in (case arrayField (get obj ''endpoints'') of
                                None \<Rightarrow> Inr (Some metadata3)
                              | Some endpointsArray \<Rightarrow>
                                  (case parseEndpoints h endpointsArray metadata3 of
                                     Inl err \<Rightarrow> Inl err
                                   | Inr metadata4 \<Rightarrow> Inr (Some metadata4)))))
         | Some _ \<Rightarrow> Inr None)"

section \<open>The file data source handler\<close>

text \<open>\<open>context.getString\<close> and \<open>context.getBigInt\<close>; a missing entry is a trap.\<close>

definition getString :: "data_source_context \<Rightarrow> string \<Rightarrow> error + string" where
  "getString ctx key =
     (case map_of ctx key of Some (CtxString str) \<Rightarrow> Inr str | _ \<Rightarrow> Inl MissingContextKey)"

definition getBigInt :: "data_source_context \<Rightarrow> string \<Rightarrow> error + int" where
  "getBigInt ctx key =
     (case map_of ctx key of Some (CtxBigInt n) \<Rightarrow> Inr n | _ \<Rightarrow> Inl MissingContextKey)"

text \<open>The key under which \<open>parseRegistrationFile\<close> stores the parsed record.\<close>

definition parseRegistrationFile_fileId :: "string \<Rightarrow> data_source_context \<Rightarrow> error + string" where
  "parseRegistrationFile_fileId stringParam ctx =
     (let cid = stringParam
      in case getString ctx ''txHash'' of
           Inl err \<Rightarrow> Inl err
         | Inr txHash \<Rightarrow> Inr (txHash @ '':'' @ cid))"

text \<open>
  \<open>parseRegistrationFile\<close>, for the data source with parameter \<open>stringParam\<close> and context
  \<open>ctx\<close>, on the content whose decoding is \<open>content\<close>.
\<close>

definition parseRegistrationFile ::
  "host \<Rightarrow> string \<Rightarrow> data_source_context \<Rightarrow> json option \<Rightarrow> store \<Rightarrow> error + store" where
  "parseRegistrationFile h stringParam ctx content s =
     (let cid = stringParam
      in case getString ctx ''txHash'' of
           Inl err \<Rightarrow> Inl err
         | Inr txHash \<Rightarrow>
             (case getString ctx ''agentId'' of
                Inl err \<Rightarrow> Inl err
              | Inr agentId \<Rightarrow>
                  (case getBigInt ctx ''timestamp'' of
                     Inl err \<Rightarrow> Inl err
                   | Inr timestamp \<Rightarrow>
                       let fileId = txHash @ '':'' @ cid
                       in (case parseRegistrationJSON h content fileId agentId cid timestamp of
                             Inl err \<Rightarrow> Inl err
                           | Inr None \<Rightarrow> Inr s
                           | Inr (Some metadata) \<Rightarrow> Inr (saveAgentRegistrationFile metadata s)))))"

section \<open>Predicates on stores and on effect sequences\<close>

text \<open>\<open>save()\<close> writes an entity under its own id, so a stored entity carries its key.\<close>

definition storeKeysOk :: "store \<Rightarrow> bool" where
  "storeKeysOk s =
     ((\<forall>k a. agents s k = Some a \<longrightarrow> a_id a = k) \<and>
      (\<forall>k f. feedbacks s k = Some f \<longrightarrow> f_id f = k) \<and>
      (\<forall>k st. agentStats s k = Some st \<longrightarrow> st_id st = k) \<and>
      (\<forall>k p. protocols s k = Some p \<longrightarrow> p_id p = k) \<and>
      (\<forall>k g. globalStats s k = Some g \<longrightarrow> g_id g = k))"

definition totalProtocolsOf :: "store \<Rightarrow> int" where
  "totalProtocolsOf s = (case globalStats s ''global'' of None \<Rightarrow> 0 | Some g \<Rightarrow> g_totalProtocols g)"

definition globalAgentsOf :: "store \<Rightarrow> string list" where
  "globalAgentsOf s = (case globalStats s ''global'' of None \<Rightarrow> [] | Some g \<Rightarrow> g_agents g)"

definition protocolTotalAgentsOf :: "store \<Rightarrow> string \<Rightarrow> int" where
  "protocolTotalAgentsOf s k = (case protocols s k of None \<Rightarrow> 0 | Some p \<Rightarrow> p_totalAgents p)"

definition tagSetOk :: "string list \<Rightarrow> bool" where
  "tagSetOk tags = (distinct tags \<and> zeroTag \<notin> set tags)"

definition setsInvariant :: "store \<Rightarrow> bool" where
  "setsInvariant s =
     ((\<forall>k p. protocols s k = Some p \<longrightarrow> tagSetOk (p_tags p)) \<and>
      (\<forall>k g. globalStats s k = Some g \<longrightarrow> tagSetOk (g_tags g)) \<and>
      (\<forall>k a. agents s k = Some a \<longrightarrow> distinct (a_operators a)))"

fun isRegistered :: "event \<Rightarrow> bool" where
  "isRegistered (Registered e) = True"
| "isRegistered e = False"

text \<open>The link that a saved primary entity carries, and the key that a fetch request leads to.\<close>

fun linkOf :: "effect \<Rightarrow> string option" where
  "linkOf (SaveAgent a) = a_registrationFile a"
| "linkOf (SaveFeedback f) = f_feedbackFile f"
| "linkOf e = None"

fun requestKey :: "effect \<Rightarrow> string option" where
  "requestKey (CreateDataSource t param ctx) =
     (case parseRegistrationFile_fileId param ctx of Inl err \<Rightarrow> None | Inr k \<Rightarrow> Some k)"
| "requestKey e = None"

text \<open>
  \<open>linkBeforeRequest seen effs\<close>: each fetch request of \<open>effs\<close> comes after a save of the link
  to its key, in \<open>effs\<close> or among the links \<open>seen\<close> earlier.
\<close>

fun linkBeforeRequest :: "string list \<Rightarrow> effect list \<Rightarrow> bool" where
  "linkBeforeRequest seen [] = True"
| "linkBeforeRequest seen (e # es) =
     ((case requestKey e of None \<Rightarrow> True | Some k \<Rightarrow> k \<in> set seen) \<and>
      linkBeforeRequest (case linkOf e of None \<Rightarrow> seen | Some k \<Rightarrow> k # seen) es)"

text \<open>
  \<open>requestThenLink effs\<close>: each fetch request of \<open>effs\<close> is directly followed by a save of the
  link to its key.
\<close>

fun requestThenLink :: "effect list \<Rightarrow> bool" where
  "requestThenLink [] = True"
| "requestThenLink (CreateDataSource t param ctx # es) =
     ((case es of
         [] \<Rightarrow> False
       | e # es' \<Rightarrow> linkOf e \<noteq> None \<and> linkOf e = requestKey (CreateDataSource t param ctx)) \<and>
      requestThenLink es)"
| "requestThenLink (e # es) = requestThenLink es"

text \<open>
  \<open>requestedThenLinked t cid key effs\<close>: somewhere in \<open>effs\<close> a fetch request for \<open>cid\<close> on
  template \<open>t\<close> is directly followed by a save of a primary entity linked to \<open>key\<close>.
\<close>

fun isRequest :: "template \<Rightarrow> string \<Rightarrow> effect \<Rightarrow> bool" where
  "isRequest t cid (CreateDataSource t' cid' ctx) = (t' = t \<and> cid' = cid)"
| "isRequest t cid e = False"

fun requestedThenLinked :: "template \<Rightarrow> string \<Rightarrow> string \<Rightarrow> effect list \<Rightarrow> bool" where
  "requestedThenLinked t cid key [] = False"
| "requestedThenLinked t cid key [e] = False"
| "requestedThenLinked t cid key (e # e' # es) =
     ((isRequest t cid e \<and> linkOf e' = Some key) \<or>
      requestedThenLinked t cid key (e' # es))"

text \<open>
  \<open>appendsTidily s s'\<close>: the effects of \<open>s'\<close> are those of \<open>s\<close> and then further ones, among
  which each fetch request is directly followed by a save of the link to its key.
\<close>

definition appendsTidily :: "store \<Rightarrow> store \<Rightarrow> bool" where
  "appendsTidily s s' = (\<exists>new. effects s' = effects s @ new \<and> requestThenLink new)"

text \<open>The effects that lead from the store \<open>s\<close> to the store \<open>s'\<close>.\<close>

definition newEffects :: "store \<Rightarrow> store \<Rightarrow> effect list" where
  "newEffects s s' = drop (length (effects s)) (effects s')"

text \<open>
  The two shapes of an \<open>agentWallet\<close> endpoint string that the parser takes: a text of 42
  characters that starts with \<open>0x\<close>, and a text that starts with \<open>eip155:\<close> and whose third
  colon-separated part is such a text.
\<close>

definition acceptedBare :: "string \<Rightarrow> bool" where
  "acceptedBare w = (\<not> startsWith w ''eip155:'' \<and> startsWith w ''0x'' \<and> length w = 42)"

definition acceptedEip155 :: "string \<Rightarrow> bool" where
  "acceptedEip155 w =
     (startsWith w ''eip155:'' \<and> 2 < length (split CHR '':'' w) \<and>
      startsWith (split CHR '':'' w ! 2) ''0x'' \<and> length (split CHR '':'' w ! 2) = 42)"

text \<open>
  The histogram of a list of scores as the ranges describe it: up to 20, 21 to 40, 41 to 60,
  61 to 80, and above 80.
\<close>

definition histogramOf :: "int list \<Rightarrow> int list" where
  "histogramOf scores =
     [int (length (filter (\<lambda>x. x \<le> 20) scores)),
      int (length (filter (\<lambda>x. 20 < x \<and> x \<le> 40) scores)),
      int (length (filter (\<lambda>x. 40 < x \<and> x \<le> 60) scores)),
      int (length (filter (\<lambda>x. 60 < x \<and> x \<le> 80) scores)),
      int (length (filter (\<lambda>x. 80 < x) scores))]"

text \<open>
  The statistics of an agent after feedback with exactly the scores \<open>scores\<close>, each histogram
  entry being the count reduced to 32 bits.
\<close>

definition statsFor :: "string \<Rightarrow> int list \<Rightarrow> agent_stats option \<Rightarrow> bool" where
  "statsFor k scores stats =
     (case stats of
        None \<Rightarrow> scores = []
      | Some st \<Rightarrow>
          st_id st = k \<and> st_totalFeedback st = int (length scores) \<and>
          st_averageScore st * of_int (int (length scores)) = of_int (sum_list scores) \<and>
          st_scoreDistribution st = map word_of_int (histogramOf scores))"

text \<open>
  Exact decimal arithmetic: \<open>BigDecimal.fromString\<close> of a printed integer denotes that integer,
  \<open>times\<close>, \<open>plus\<close> and \<open>div\<close> do not round, and \<open>div\<close> traps on a zero divisor only.
\<close>

definition exactDecimals :: "host \<Rightarrow> bool" where
  "exactDecimals h =
     ((\<forall>i. bd_fromString h (toString i) = of_int i) \<and>
      (\<forall>a b. bd_times h a b = a * b) \<and>
      (\<forall>a b. bd_plus h a b = a + b) \<and>
      (\<forall>a b. bd_div h a b = (if b = 0 then None else Some (a / b))))"

section \<open>Sample inputs\<close>

text \<open>
  Modelled from the spec: \<open>Bytes.fromHexString\<close> is a function of the runtime, absent from the
  sources. For a text made of \<open>0x\<close> and hexadecimal digits, the bytes it yields print as that
  text in lower case; the sample below does this to every text, and the concrete runs use it
  on such texts only.
\<close>

definition lowerHexChar :: "char \<Rightarrow> char" where
  "lowerHexChar c =
     (if c = CHR ''A'' then CHR ''a'' else if c = CHR ''B'' then CHR ''b''
      else if c = CHR ''C'' then CHR ''c'' else if c = CHR ''D'' then CHR ''d''
      else if c = CHR ''E'' then CHR ''e'' else if c = CHR ''F'' then CHR ''f'' else c)"

definition sample_fromHexString :: "string \<Rightarrow> bytes" where
  "sample_fromHexString hex = map lowerHexChar hex"

text \<open>
  Modelled from the spec: the chain configuration, the URI classifier and the decimal
  arithmetic are external to the sources. This configuration supports chain 1 only,
  recognises the prefixes \<open>ipfs://\<close> and \<open>ar://\<close>, reads a decimal from an integer numeral and
  computes with decimals exactly; the concrete runs below use it.
\<close>

definition sample_host :: host where
  "sample_host =
     \<lparr>getChainId = 1,
      isSupportedChain = (\<lambda>c. c = 1),
      getChainName = (\<lambda>c. ''mainnet''),
      getContractAddresses =
        (\<lambda>c. \<lparr>ca_identityRegistry = ''0x01'', ca_reputationRegistry = ''0x02'',
               ca_validationRegistry = ''0x03''\<rparr>),
      determineUriType =
        (\<lambda>u. if take 7 u = ''ipfs://'' then ''ipfs''
              else if take 5 u = ''ar://'' then ''arweave'' else ''unknown''),
      isIpfsUri = (\<lambda>u. take 7 u = ''ipfs://''),
      extractIpfsHash = drop 7,
      isArweaveUri = (\<lambda>u. take 5 u = ''ar://''),
      extractArweaveTxId = drop 5,
      bytes32ToString = (\<lambda>b. b),
      bd_fromString = (\<lambda>str. case BigInt_fromString str of None \<Rightarrow> 0 | Some i \<Rightarrow> of_int i),
      bd_times = (\<lambda>a b. a * b),
      bd_plus = (\<lambda>a b. a + b),
      bd_div = (\<lambda>a b. if b = 0 then None else Some (a / b)),
      fromHexString = sample_fromHexString\<rparr>"

definition sample_tag :: bytes where
  "sample_tag = ''0x7175616c69747900000000000000000000000000000000000000000000000000''"

definition sample_registered :: registered where
  "sample_registered =
     \<lparr>reg_agentId = 7, reg_owner = ''0x00000000000000000000000000000000000000aa'',
      reg_tokenURI = ''ipfs://QmAgent'', reg_timestamp = 100, reg_txHash = ''0xbeef''\<rparr>"

definition sample_new_feedback :: "int \<Rightarrow> new_feedback" where
  "sample_new_feedback score =
     \<lparr>nf_agentId = 7, nf_clientAddress = ''0x00000000000000000000000000000000000000cc'',
      nf_score = score, nf_tag1 = sample_tag, nf_tag2 = zeroTag,
      nf_feedbackUri = ''ipfs://QmFeedback'', nf_feedbackHash = ''0x00'',
      nf_timestamp = 200, nf_txHash = ''0xf00d''\<rparr>"

definition sample_feedback_revoked :: feedback_revoked where
  "sample_feedback_revoked =
     \<lparr>fr_agentId = 7, fr_clientAddress = ''0x00000000000000000000000000000000000000cc'',
      fr_feedbackIndex = 1, fr_timestamp = 300\<rparr>"

definition sample_approval :: approval where
  "sample_approval =
     \<lparr>ap_tokenId = 7, ap_approved = ''0x00000000000000000000000000000000000000dd'',
      ap_timestamp = 150\<rparr>"

definition sample_uri_updated :: uri_updated where
  "sample_uri_updated =
     \<lparr>uu_agentId = 7, uu_newUri = ''ar://TxAgent'', uu_timestamp = 160, uu_txHash = ''0xcafe''\<rparr>"

definition sample_agent :: agent where
  "sample_agent =
     \<lparr>a_id = ''1:7'', a_chainId = 1, a_agentId = 7, a_createdAt = 100, a_operators = [],
      a_totalFeedback = 0, a_lastActivity = 100, a_registrationFile = None,
      a_owner = ''0x00000000000000000000000000000000000000aa'', a_agentURI = [],
      a_agentURIType = ''unknown'', a_updatedAt = 100\<rparr>"

text \<open>
  The stores after a Register event, after a NewFeedback event with score 85 on top of it,
  and after the revocation of that feedback.
\<close>

definition sample_store_registered :: store where
  "sample_store_registered = handleAgentRegistered sample_host sample_registered empty_store"

definition sample_store_feedback :: store where
  "sample_store_feedback =
     (case handleNewFeedback sample_host (sample_new_feedback 85) sample_store_registered of
        Inl err \<Rightarrow> empty_store
      | Inr s \<Rightarrow> s)"

definition sample_store_revoked :: store where
  "sample_store_revoked =
     handleFeedbackRevoked sample_host sample_feedback_revoked sample_store_feedback"

section \<open>Basic facts\<close>

lemma natToString_small [simp]:
  "natToString 0 = ''0''" "natToString 1 = ''1''" "natToString 2 = ''2''"
  "natToString 7 = ''7''" "natToString (Suc 0) = ''1''"
  by code_simp+

lemma toString_small [simp]:
  "toString 0 = ''0''" "toString 1 = ''1''" "toString 2 = ''2''" "toString 7 = ''7''"
  by code_simp+

lemma saveAgent_fields [simp]:
  "agents (saveAgent a s) = (agents s)(a_id a \<mapsto> a)"
  "agentMetadata (saveAgent a s) = agentMetadata s"
  "feedbacks (saveAgent a s) = feedbacks s"
  "feedbackResponses (saveAgent a s) = feedbackResponses s"
  "agentStats (saveAgent a s) = agentStats s"
  "protocols (saveAgent a s) = protocols s"
  "globalStats (saveAgent a s) = globalStats s"
  "registrationFiles (saveAgent a s) = registrationFiles s"
  "effects (saveAgent a s) = effects s @ [SaveAgent a]"
  by (simp_all add: saveAgent_def)

lemma saveAgentMetadata_fields [simp]:
  "agents (saveAgentMetadata m s) = agents s"
  "agentMetadata (saveAgentMetadata m s) = (agentMetadata s)(m_id m \<mapsto> m)"
  "feedbacks (saveAgentMetadata m s) = feedbacks s"
  "feedbackResponses (saveAgentMetadata m s) = feedbackResponses s"
  "agentStats (saveAgentMetadata m s) = agentStats s"
  "protocols (saveAgentMetadata m s) = protocols s"
  "globalStats (saveAgentMetadata m s) = globalStats s"
  "registrationFiles (saveAgentMetadata m s) = registrationFiles s"
  "effects (saveAgentMetadata m s) = effects s @ [SaveAgentMetadata m]"
  by (simp_all add: saveAgentMetadata_def)

lemma saveFeedback_fields [simp]:
  "agents (saveFeedback f s) = agents s"
  "agentMetadata (saveFeedback f s) = agentMetadata s"
  "feedbacks (saveFeedback f s) = (feedbacks s)(f_id f \<mapsto> f)"
  "feedbackResponses (saveFeedback f s) = feedbackResponses s"
  "agentStats (saveFeedback f s) = agentStats s"
  "protocols (saveFeedback f s) = protocols s"
  "globalStats (saveFeedback f s) = globalStats s"
  "registrationFiles (saveFeedback f s) = registrationFiles s"
  "effects (saveFeedback f s) = effects s @ [SaveFeedback f]"
  by (simp_all add: saveFeedback_def)

lemma saveFeedbackResponse_fields [simp]:
  "agents (saveFeedbackResponse r s) = agents s"
  "agentMetadata (saveFeedbackResponse r s) = agentMetadata s"
  "feedbacks (saveFeedbackResponse r s) = feedbacks s"
  "feedbackResponses (saveFeedbackResponse r s) = (feedbackResponses s)(r_id r \<mapsto> r)"
  "agentStats (saveFeedbackResponse r s) = agentStats s"
  "protocols (saveFeedbackResponse r s) = protocols s"
  "globalStats (saveFeedbackResponse r s) = globalStats s"
  "registrationFiles (saveFeedbackResponse r s) = registrationFiles s"
  "effects (saveFeedbackResponse r s) = effects s @ [SaveFeedbackResponse r]"
  by (simp_all add: saveFeedbackResponse_def)

lemma saveAgentStats_fields [simp]:
  "agents (saveAgentStats st s) = agents s"
  "agentMetadata (saveAgentStats st s) = agentMetadata s"
  "feedbacks (saveAgentStats st s) = feedbacks s"
  "feedbackResponses (saveAgentStats st s) = feedbackResponses s"
  "agentStats (saveAgentStats st s) = (agentStats s)(st_id st \<mapsto> st)"
  "protocols (saveAgentStats st s) = protocols s"
  "globalStats (saveAgentStats st s) = globalStats s"
  "registrationFiles (saveAgentStats st s) = registrationFiles s"
  "effects (saveAgentStats st s) = effects s @ [SaveAgentStats st]"
  by (simp_all add: saveAgentStats_def)

lemma saveProtocol_fields [simp]:
  "agents (saveProtocol p s) = agents s"
  "agentMetadata (saveProtocol p s) = agentMetadata s"
  "feedbacks (saveProtocol p s) = feedbacks s"
  "feedbackResponses (saveProtocol p s) = feedbackResponses s"
  "agentStats (saveProtocol p s) = agentStats s"
  "protocols (saveProtocol p s) = (protocols s)(p_id p \<mapsto> p)"
  "globalStats (saveProtocol p s) = globalStats s"
  "registrationFiles (saveProtocol p s) = registrationFiles s"
  "effects (saveProtocol p s) = effects s @ [SaveProtocol p]"
  by (simp_all add: saveProtocol_def)

lemma saveGlobalStats_fields [simp]:
  "agents (saveGlobalStats g s) = agents s"
  "agentMetadata (saveGlobalStats g s) = agentMetadata s"
  "feedbacks (saveGlobalStats g s) = feedbacks s"
  "feedbackResponses (saveGlobalStats g s) = feedbackResponses s"
  "agentStats (saveGlobalStats g s) = agentStats s"
  "protocols (saveGlobalStats g s) = protocols s"
  "globalStats (saveGlobalStats g s) = (globalStats s)(g_id g \<mapsto> g)"
  "registrationFiles (saveGlobalStats g s) = registrationFiles s"
  "effects (saveGlobalStats g s) = effects s @ [SaveGlobalStats g]"
  by (simp_all add: saveGlobalStats_def)

lemma saveAgentRegistrationFile_fields [simp]:
  "agents (saveAgentRegistrationFile rf s) = agents s"
  "agentMetadata (saveAgentRegistrationFile rf s) = agentMetadata s"
  "feedbacks (saveAgentRegistrationFile rf s) = feedbacks s"
  "feedbackResponses (saveAgentRegistrationFile rf s) = feedbackResponses s"
  "agentStats (saveAgentRegistrationFile rf s) = agentStats s"
  "protocols (saveAgentRegistrationFile rf s) = protocols s"
  "globalStats (saveAgentRegistrationFile rf s) = globalStats s"
  "registrationFiles (saveAgentRegistrationFile rf s) = (registrationFiles s)(rf_id rf \<mapsto> rf)"
  "effects (saveAgentRegistrationFile rf s) = effects s @ [SaveAgentRegistrationFile rf]"
  by (simp_all add: saveAgentRegistrationFile_def)

lemma createWithContext_fields [simp]:
  "agents (createWithContext t param ctx s) = agents s"
  "agentMetadata (createWithContext t param ctx s) = agentMetadata s"
  "feedbacks (createWithContext t param ctx s) = feedbacks s"
  "feedbackResponses (createWithContext t param ctx s) = feedbackResponses s"
  "agentStats (createWithContext t param ctx s) = agentStats s"
  "protocols (createWithContext t param ctx s) = protocols s"
  "globalStats (createWithContext t param ctx s) = globalStats s"
  "registrationFiles (createWithContext t param ctx s) = registrationFiles s"
  "effects (createWithContext t param ctx s) = effects s @ [CreateDataSource t param ctx]"
  by (simp_all add: createWithContext_def)

lemma empty_store_fields [simp]:
  "agents empty_store = Map.empty"
  "agentMetadata empty_store = Map.empty"
  "feedbacks empty_store = Map.empty"
  "feedbackResponses empty_store = Map.empty"
  "agentStats empty_store = Map.empty"
  "protocols empty_store = Map.empty"
  "globalStats empty_store = Map.empty"
  "registrationFiles empty_store = Map.empty"
  "effects empty_store = []"
  by (simp_all add: empty_store_def)

lemma newProtocol_fields [simp]:
  "p_id (newProtocol h c) = toString c" "p_totalAgents (newProtocol h c) = 0"
  "p_totalFeedback (newProtocol h c) = 0" "p_agents (newProtocol h c) = []"
  "p_tags (newProtocol h c) = []"
  by (simp_all add: newProtocol_def Let_def)

lemma newGlobalStats_fields [simp]:
  "g_id newGlobalStats = ''global''" "g_totalProtocols newGlobalStats = 0"
  "g_agents newGlobalStats = []" "g_tags newGlobalStats = []"
  "g_totalAgents newGlobalStats = 0" "g_totalFeedback newGlobalStats = 0"
  by (simp_all add: newGlobalStats_def)

lemma sample_host_fields [simp]:
  "getChainId sample_host = 1" "isSupportedChain sample_host c = (c = 1)"
  "isIpfsUri sample_host u = (take 7 u = ''ipfs://'')"
  "extractIpfsHash sample_host = drop 7"
  "isArweaveUri sample_host u = (take 5 u = ''ar://'')"
  "extractArweaveTxId sample_host = drop 5"
  "bytes32ToString sample_host b = b"
  "bd_times sample_host x y = x * y"
  "bd_plus sample_host x y = x + y"
  "bd_div sample_host x y = (if y = 0 then None else Some (x / y))"
  "fromHexString sample_host = sample_fromHexString"
  "determineUriType sample_host u =
     (if take 7 u = ''ipfs://'' then ''ipfs''
      else if take 5 u = ''ar://'' then ''arweave'' else ''unknown'')"
  "getChainName sample_host c = ''mainnet''"
  "getContractAddresses sample_host c =
     \<lparr>ca_identityRegistry = ''0x01'', ca_reputationRegistry = ''0x02'',
      ca_validationRegistry = ''0x03''\<rparr>"
  by (simp_all add: sample_host_def)

subsection \<open>Printing an integer and reading it back\<close>

lemma digitValue_digit_char: "d < 10 \<Longrightarrow> digitValue (digit_char d) = d"
proof -
  assume "d < 10"
  then have "d \<in> {0, 1, 2, 3, 4, 5, 6, 7, 8, 9}" by auto
  then show ?thesis by (auto simp: digitValue_def digit_char_def)
qed

lemma isDigit_digit_char: "d < 10 \<Longrightarrow> isDigit (digit_char d)"
proof -
  assume "d < 10"
  then have "d \<in> {0, 1, 2, 3, 4, 5, 6, 7, 8, 9}" by auto
  then show ?thesis by (auto simp: isDigit_def digit_char_def)
qed

lemma digitsValue_snoc: "digitsValue (ds @ [c]) = 10 * digitsValue ds + digitValue c"
  by (simp add: digitsValue_def)

lemma natToString_digits:
  "list_all isDigit (natToString n) \<and> natToString n \<noteq> [] \<and> digitsValue (natToString n) = n"
proof (induction n rule: natToString.induct)
  case (1 n)
  show ?case
  proof (cases "n < 10")
    case True
    then show ?thesis
      by (subst (1 2 3) natToString.simps)
        (simp add: isDigit_digit_char digitValue_digit_char digitsValue_def)
  next
    case False
    with 1 have ih: "list_all isDigit (natToString (n div 10))"
      "natToString (n div 10) \<noteq> []" "digitsValue (natToString (n div 10)) = n div 10"
      by simp_all
    from False ih show ?thesis
      by (subst (1 2 3) natToString.simps)
        (simp add: isDigit_digit_char digitValue_digit_char digitsValue_snoc)
  qed
qed

lemma BigInt_fromString_toString: "BigInt_fromString (toString i) = Some i"
proof (cases "i < 0")
  case True
  with natToString_digits[of "nat (- i)"] show ?thesis
    by (simp add: BigInt_fromString_def toString_def)
next
  case False
  obtain c ds where cds: "natToString (nat i) = c # ds"
    using natToString_digits[of "nat i"] by (cases "natToString (nat i)") auto
  with natToString_digits[of "nat i"] have "isDigit c" by simp
  then have "c \<noteq> CHR ''-''" by (auto simp: isDigit_def)
  with False cds natToString_digits[of "nat i"] show ?thesis
    by (simp add: BigInt_fromString_def toString_def)
qed

lemma exactDecimals_sample_host [simp]: "exactDecimals sample_host"
  by (simp add: exactDecimals_def sample_host_def BigInt_fromString_toString)

lemma exactDecimals_zero: "exactDecimals h \<Longrightarrow> bd_fromString h ''0'' = 0"
  using toString_small(1) by (auto simp: exactDecimals_def dest: spec[of _ 0])

lemma linkRegistrationFile_frame [simp]:
  "protocols (snd (linkRegistrationFile t cid k tx ts as)) = protocols (snd as)"
  "globalStats (snd (linkRegistrationFile t cid k tx ts as)) = globalStats (snd as)"
  "agentStats (snd (linkRegistrationFile t cid k tx ts as)) = agentStats (snd as)"
  "feedbacks (snd (linkRegistrationFile t cid k tx ts as)) = feedbacks (snd as)"
  by (simp_all add: linkRegistrationFile_def Let_def)

subsection \<open>Entities stay under their own keys\<close>

lemma sample_ids [simp]:
  "agentEntityId 1 7 = ''1:7''"
  "feedbackEntityId ''1:7'' ''0x00000000000000000000000000000000000000cc'' 1 =
     ''1:7:0x00000000000000000000000000000000000000cc:1''"
  by (simp_all add: agentEntityId_def feedbackEntityId_def)

lemma storeKeysOk_empty [simp]: "storeKeysOk empty_store"
  by (simp add: storeKeysOk_def)

lemma storeKeysOk_save [simp]:
  "storeKeysOk s \<Longrightarrow> storeKeysOk (saveAgent a s)"
  "storeKeysOk s \<Longrightarrow> storeKeysOk (saveAgentMetadata m s)"
  "storeKeysOk s \<Longrightarrow> storeKeysOk (saveFeedback f s)"
  "storeKeysOk s \<Longrightarrow> storeKeysOk (saveFeedbackResponse r s)"
  "storeKeysOk s \<Longrightarrow> storeKeysOk (saveAgentStats st s)"
  "storeKeysOk s \<Longrightarrow> storeKeysOk (saveProtocol p s)"
  "storeKeysOk s \<Longrightarrow> storeKeysOk (saveGlobalStats g s)"
  "storeKeysOk s \<Longrightarrow> storeKeysOk (createWithContext t param ctx s)"
  by (simp_all add: storeKeysOk_def)

lemma storeKeysOk_identity_updateProtocolStats [simp]:
  "storeKeysOk s \<Longrightarrow> storeKeysOk (identity_updateProtocolStats h c ag ts s)"
  by (simp add: identity_updateProtocolStats_def Let_def)

lemma storeKeysOk_linkRegistrationFile [simp]:
  "storeKeysOk (snd as) \<Longrightarrow> storeKeysOk (snd (linkRegistrationFile t cid k tx ts as))"
  by (simp add: linkRegistrationFile_def Let_def)

lemma storeKeysOk_handleAgentRegistered:
  "storeKeysOk s \<Longrightarrow> storeKeysOk (handleAgentRegistered h ev s)"
  by (simp add: handleAgentRegistered_def Let_def)

lemma storeKeysOk_reputation_updateProtocolStats [simp]:
  "storeKeysOk s \<Longrightarrow> storeKeysOk (reputation_updateProtocolStats h c ag ts t1 t2 s)"
  by (simp add: reputation_updateProtocolStats_def Let_def)

lemma storeKeysOk_linkFeedbackFile [simp]:
  "storeKeysOk s \<Longrightarrow> storeKeysOk (linkFeedbackFile t cid fid tx ts fb s)"
  by (simp add: linkFeedbackFile_def Let_def)

lemma storeKeysOk_updateAgentStats:
  "storeKeysOk s \<Longrightarrow> updateAgentStats h ag x ts s = Inr s' \<Longrightarrow> storeKeysOk s'"
  by (auto simp: updateAgentStats_def Let_def split: if_splits option.splits)

lemma storeKeysOk_handleNewFeedback:
  "storeKeysOk s \<Longrightarrow> handleNewFeedback h ev s = Inr s' \<Longrightarrow> storeKeysOk s'"
  by (auto simp: handleNewFeedback_def Let_def split: option.splits sum.splits
      dest!: storeKeysOk_updateAgentStats[rotated])

lemma storeKeysOk_others:
  "storeKeysOk s \<Longrightarrow> storeKeysOk (handleMetadataSet h e1 s)"
  "storeKeysOk s \<Longrightarrow> storeKeysOk (handleUriUpdated h e2 s)"
  "storeKeysOk s \<Longrightarrow> storeKeysOk (handleTransfer h e3 s)"
  "storeKeysOk s \<Longrightarrow> storeKeysOk (handleApproval h e4 s)"
  "storeKeysOk s \<Longrightarrow> storeKeysOk (handleApprovalForAll h s)"
  "storeKeysOk s \<Longrightarrow> storeKeysOk (handleFeedbackRevoked h e5 s)"
  "storeKeysOk s \<Longrightarrow> storeKeysOk (handleResponseAppended h e6 s)"
  by (simp_all add: handleMetadataSet_def handleUriUpdated_def handleTransfer_def
      handleApproval_def handleApprovalForAll_def handleFeedbackRevoked_def
      handleResponseAppended_def updateAgentStatsAfterRevocation_def Let_def
      split: option.splits)

lemma storeKeysOk_handle:
  "storeKeysOk s \<Longrightarrow> handle h e s = Inr s' \<Longrightarrow> storeKeysOk s'"
  by (cases e) (auto simp: storeKeysOk_handleAgentRegistered storeKeysOk_others
      dest: storeKeysOk_handleNewFeedback)

lemma storeKeysOk_run:
  "storeKeysOk s \<Longrightarrow> run h es s = Inr s' \<Longrightarrow> storeKeysOk s'"
  by (induction es arbitrary: s) (auto split: sum.splits dest: storeKeysOk_handle)

section \<open>Registration and the per-chain agent counter\<close>

lemma identity_updateProtocolStats_totalAgents:
  assumes "isSupportedChain h c"
    and "\<And>p. protocols s (toString c) = Some p \<Longrightarrow> p_id p = toString c"
  shows "protocolTotalAgentsOf (identity_updateProtocolStats h c ag ts s) (toString c) =
         protocolTotalAgentsOf s (toString c) + 1"
    and "\<And>p. protocols (identity_updateProtocolStats h c ag ts s) (toString c) = Some p
           \<Longrightarrow> p_id p = toString c"
  using assms
  by (auto simp: identity_updateProtocolStats_def protocolTotalAgentsOf_def Let_def
      split: option.splits if_splits)

lemma handleAgentRegistered_protocols:
  "\<exists>ag. protocols (handleAgentRegistered h ev s) =
     protocols (identity_updateProtocolStats h (getChainId h) ag (reg_timestamp ev)
       (identity_updateProtocolStats h (getChainId h) ag (reg_timestamp ev) (saveAgent ag s)))"
  by (auto simp: handleAgentRegistered_def Let_def)

lemma protocolTotalAgentsOf_cong:
  "protocols s = protocols s' \<Longrightarrow> protocolTotalAgentsOf s k = protocolTotalAgentsOf s' k"
  by (simp add: protocolTotalAgentsOf_def)

text \<open>
  C2. A monotonic counter goes up by exactly 1 per qualifying event; in particular a Register
  event on a supported chain raises \<open>Protocol.totalAgents\<close> by exactly 1.

  The handler calls \<open>updateProtocolStats\<close> twice in a row, so on a supported chain one
  Register event raises \<open>Protocol.totalAgents\<close> by 2, while \<open>GlobalStats.totalAgents\<close> goes
  up by 1 in the same handler.
\<close>

theorem register_counts_agent_twice:
  assumes sup: "isSupportedChain h (getChainId h)" and ok: "storeKeysOk s"
  shows "protocolTotalAgentsOf (handleAgentRegistered h ev s) (toString (getChainId h)) =
         protocolTotalAgentsOf s (toString (getChainId h)) + 2"
proof -
  let ?c = "getChainId h" and ?ts = "reg_timestamp ev"
  obtain ag where eq: "protocols (handleAgentRegistered h ev s) =
      protocols (identity_updateProtocolStats h ?c ag ?ts
        (identity_updateProtocolStats h ?c ag ?ts (saveAgent ag s)))"
    using handleAgentRegistered_protocols by blast
  let ?s0 = "saveAgent ag s"
  let ?s1 = "identity_updateProtocolStats h ?c ag ?ts ?s0"
  have k0: "\<And>p. protocols ?s0 (toString ?c) = Some p \<Longrightarrow> p_id p = toString ?c"
    using ok by (simp add: storeKeysOk_def)
  have one: "protocolTotalAgentsOf ?s1 (toString ?c) = protocolTotalAgentsOf ?s0 (toString ?c) + 1"
    by (rule identity_updateProtocolStats_totalAgents(1)[OF sup k0])
  have k1: "\<And>p. protocols ?s1 (toString ?c) = Some p \<Longrightarrow> p_id p = toString ?c"
    by (rule identity_updateProtocolStats_totalAgents(2)[OF sup k0])
  have two: "protocolTotalAgentsOf (identity_updateProtocolStats h ?c ag ?ts ?s1) (toString ?c) =
             protocolTotalAgentsOf ?s1 (toString ?c) + 1"
    by (rule identity_updateProtocolStats_totalAgents(1)[OF sup k1])
  have "protocolTotalAgentsOf ?s0 (toString ?c) = protocolTotalAgentsOf s (toString ?c)"
    by (simp add: protocolTotalAgentsOf_def)
  with one two protocolTotalAgentsOf_cong[OF eq] show ?thesis by simp
qed

theorem register_counts_agent_twice_witness:
  "isSupportedChain sample_host (getChainId sample_host) \<and> storeKeysOk empty_store \<and>
   protocolTotalAgentsOf (handleAgentRegistered sample_host sample_registered empty_store) ''1'' = 2"
  using register_counts_agent_twice[of sample_host empty_store sample_registered]
  by (simp add: storeKeysOk_def protocolTotalAgentsOf_def)

section \<open>Running mean and histogram\<close>

lemma histogramOf_snoc:
  "histogramOf (scores @ [x]) =
     (histogramOf scores)[bucketIndex x := histogramOf scores ! bucketIndex x + 1]"
  by (simp add: histogramOf_def bucketIndex_def)

lemma histogramOf_Nil [simp]: "histogramOf [] = [0, 0, 0, 0, 0]"
  by (simp add: histogramOf_def)

lemma length_histogramOf [simp]: "length (histogramOf scores) = 5"
  by (simp add: histogramOf_def)

lemma bucketIndex_less [simp]:
  "bucketIndex x < 5" "bucketIndex x < Suc (Suc (Suc (Suc (Suc 0))))"
  by (simp_all add: bucketIndex_def)

lemma sum_list_histogramOf: "sum_list (histogramOf scores) = int (length scores)"
proof (induction scores)
  case Nil
  show ?case by simp
next
  case (Cons x xs)
  then show ?case by (simp add: histogramOf_def)
qed

lemma histogramOf_nonneg: "c \<in> set (histogramOf scores) \<Longrightarrow> 0 \<le> c \<and> c \<le> int (length scores)"
  by (auto simp: histogramOf_def)

lemma word_histogram_snoc:
  "(map word_of_int (histogramOf (scores @ [x])) :: 32 word list) =
     (map word_of_int (histogramOf scores))
       [bucketIndex x := word_of_int (histogramOf scores ! bucketIndex x) + 1]"
  by (simp add: histogramOf_snoc map_update del: list_update.simps)

lemma word_histogram_Nil: "([0, 0, 0, 0, 0] :: 32 word list) = map word_of_int (histogramOf [])"
  by simp

lemma sint_histogram:
  assumes "length scores < 2 ^ 31"
  shows "map sint (map word_of_int (histogramOf scores) :: 32 word list) = histogramOf scores"
proof -
  have "sint (word_of_int c :: 32 word) = c" if "c \<in> set (histogramOf scores)" for c
  proof -
    from that assms have "0 \<le> c" "c < 2 ^ 31"
      using histogramOf_nonneg[of c scores] by auto
    then show ?thesis
      by (simp add: signed_of_int signed_take_bit_int_eq_self)
  qed
  then show ?thesis by (simp add: map_idI)
qed

lemma updateAgentStats_step:
  assumes ex: "exactDecimals h" and id: "a_id ag = k" and st: "statsFor k scores (agentStats s k)"
  shows "\<exists>s'. updateAgentStats h ag x ts s = Inr s' \<and>
           statsFor k (scores @ [x]) (agentStats s' k) \<and> agentStats s' k \<noteq> None \<and>
           agents s' = (agents s)(k \<mapsto> ag\<lparr>a_totalFeedback := a_totalFeedback ag + 1,
                                            a_lastActivity := ts, a_updatedAt := ts\<rparr>) \<and>
           protocols s' = protocols s \<and> globalStats s' = globalStats s"
proof -
  from ex have bd: "\<And>i. bd_fromString h (toString i) = of_int i"
    "\<And>a b. bd_times h a b = a * b" "\<And>a b. bd_plus h a b = a + b"
    "\<And>a b. bd_div h a b = (if b = 0 then None else Some (a / b))"
    by (simp_all add: exactDecimals_def)
  have "(0 :: rat) \<le> of_nat (length scores)" by simp
  then have nz: "(1 + of_nat (length scores) :: rat) \<noteq> 0" by linarith
  have nz': "(of_nat (length scores) + 1 :: rat) \<noteq> 0"
    using nz by (simp add: add.commute)
  show ?thesis
  proof (cases "agentStats s k")
    case None
    with st have "scores = []" by (simp add: statsFor_def)
    have one: "bd_fromString h ''1'' = 1"
      using bd(1)[of 1] by simp
    have upd: "(map word_of_int (histogramOf []))
                 [bucketIndex x := word_of_int (histogramOf [] ! bucketIndex x) + 1] =
               (map word_of_int (histogramOf [x]) :: 32 word list)"
      using word_histogram_snoc[of "[]" x] by (simp del: list_update.simps histogramOf_Nil)
    from \<open>scores = []\<close> None id show ?thesis
      unfolding updateAgentStats_def Let_def word_histogram_Nil
      by (simp add: bd one upd exactDecimals_zero[OF ex] statsFor_def
          del: list_update.simps histogramOf_Nil)
  next
    case (Some st0)
    with st have h: "st_id st0 = k" "st_totalFeedback st0 = int (length scores)"
      "st_averageScore st0 * of_int (int (length scores)) = of_int (sum_list scores)"
      "st_scoreDistribution st0 = map word_of_int (histogramOf scores)"
      by (simp_all add: statsFor_def)
    from Some id h show ?thesis
      apply (simp add: updateAgentStats_def Let_def statsFor_def word_histogram_snoc bd nz nz'
          del: list_update.simps)
      using nz nz' apply (simp add: field_simps)
      done
  qed
qed

lemma reputation_updateProtocolStats_frame [simp]:
  "agents (reputation_updateProtocolStats h c ag ts t1 t2 s) = agents s"
  "agentStats (reputation_updateProtocolStats h c ag ts t1 t2 s) = agentStats s"
  "feedbacks (reputation_updateProtocolStats h c ag ts t1 t2 s) = feedbacks s"
  "globalStats (reputation_updateProtocolStats h c ag ts t1 t2 s) = globalStats s"
  by (simp_all add: reputation_updateProtocolStats_def Let_def)

lemma linkFeedbackFile_frame [simp]:
  "agents (linkFeedbackFile t cid fid tx ts fb s) = agents s"
  "agentStats (linkFeedbackFile t cid fid tx ts fb s) = agentStats s"
  "protocols (linkFeedbackFile t cid fid tx ts fb s) = protocols s"
  "globalStats (linkFeedbackFile t cid fid tx ts fb s) = globalStats s"
  by (simp_all add: linkFeedbackFile_def Let_def)

lemma handleNewFeedback_step:
  assumes ex: "exactDecimals h"
    and ag: "agents s (agentEntityId (getChainId h) (nf_agentId ev)) = Some ag"
    and id: "a_id ag = agentEntityId (getChainId h) (nf_agentId ev)"
    and st: "statsFor (agentEntityId (getChainId h) (nf_agentId ev)) scores
               (agentStats s (agentEntityId (getChainId h) (nf_agentId ev)))"
  shows "\<exists>s' ag'. handleNewFeedback h ev s = Inr s' \<and>
           agents s' (agentEntityId (getChainId h) (nf_agentId ev)) = Some ag' \<and>
           a_id ag' = agentEntityId (getChainId h) (nf_agentId ev) \<and>
           a_totalFeedback ag' = a_totalFeedback ag + 1 \<and>
           agentStats s' (agentEntityId (getChainId h) (nf_agentId ev)) \<noteq> None \<and>
           statsFor (agentEntityId (getChainId h) (nf_agentId ev)) (scores @ [nf_score ev])
             (agentStats s' (agentEntityId (getChainId h) (nf_agentId ev)))"
proof -
  let ?k = "agentEntityId (getChainId h) (nf_agentId ev)"
  define s2 where "s2 =
    (let fb = \<lparr>f_id = feedbackEntityId ?k (nf_clientAddress ev) (a_totalFeedback ag + 1),
                f_agent = ?k, f_clientAddress = nf_clientAddress ev, f_score = nf_score ev,
                f_tag1 = Some (bytes32ToString h (nf_tag1 ev)),
                f_tag2 = Some (bytes32ToString h (nf_tag2 ev)),
                f_feedbackUri = nf_feedbackUri ev,
                f_feedbackURIType =
                  (if length (nf_feedbackUri ev) > 0
                   then determineUriType h (nf_feedbackUri ev) else ''unknown''),
                f_feedbackHash = nf_feedbackHash ev, f_isRevoked = False,
                f_createdAt = nf_timestamp ev, f_revokedAt = None, f_feedbackFile = None\<rparr>;
         s1 = saveFeedback fb s
     in (if length (nf_feedbackUri ev) > 0 \<and> isIpfsUri h (nf_feedbackUri ev) then
           linkFeedbackFile FeedbackFileTemplate (extractIpfsHash h (nf_feedbackUri ev))
             (f_id fb) (nf_txHash ev) (nf_timestamp ev) fb s1
         else if length (nf_feedbackUri ev) > 0 \<and> isArweaveUri h (nf_feedbackUri ev) then
           linkFeedbackFile ArweaveFeedbackFileTemplate (extractArweaveTxId h (nf_feedbackUri ev))
             (f_id fb) (nf_txHash ev) (nf_timestamp ev) fb s1
         else s1))"
  have fr: "agentStats s2 = agentStats s" "agents s2 = agents s"
    by (simp_all add: s2_def Let_def)
  from st fr have st2: "statsFor ?k scores (agentStats s2 ?k)" by simp
  from updateAgentStats_step[OF ex id st2, of "nf_score ev" "nf_timestamp ev"]
  obtain s3 where s3: "updateAgentStats h ag (nf_score ev) (nf_timestamp ev) s2 = Inr s3"
    "statsFor ?k (scores @ [nf_score ev]) (agentStats s3 ?k)" "agentStats s3 ?k \<noteq> None"
    "agents s3 = (agents s2)(?k \<mapsto> ag\<lparr>a_totalFeedback := a_totalFeedback ag + 1,
        a_lastActivity := nf_timestamp ev, a_updatedAt := nf_timestamp ev\<rparr>)"
    by blast
  have "handleNewFeedback h ev s =
        (case updateAgentStats h ag (nf_score ev) (nf_timestamp ev) s2 of
           Inl e \<Rightarrow> Inl e
         | Inr s3 \<Rightarrow>
             let s4 = reputation_updateProtocolStats h (getChainId h) ag (nf_timestamp ev)
                        (nf_tag1 ev) (nf_tag2 ev) s3;
                 globalStats0 = (case globalStats s4 ''global'' of
                                   None \<Rightarrow> newGlobalStats | Some g \<Rightarrow> g);
                 globalStats1 = globalStats0\<lparr>g_totalFeedback := g_totalFeedback globalStats0 + 1\<rparr>;
                 currentGlobalTags =
                   addTag (nf_tag2 ev) (addTag (nf_tag1 ev) (g_tags globalStats1))
             in Inr (saveGlobalStats
                      (globalStats1\<lparr>g_tags := currentGlobalTags,
                                    g_updatedAt := nf_timestamp ev\<rparr>) s4))"
    using ag by (simp add: handleNewFeedback_def s2_def Let_def)
  with s3 id show ?thesis
    by (simp add: Let_def)
qed

lemma run_new_feedback:
  assumes "exactDecimals h"
    and "\<forall>e \<in> set evs. nf_agentId e = a"
    and "agents s (agentEntityId (getChainId h) a) = Some ag"
    and "a_id ag = agentEntityId (getChainId h) a"
    and "statsFor (agentEntityId (getChainId h) a) scores
           (agentStats s (agentEntityId (getChainId h) a))"
  shows "\<exists>s' ag'. run h (map NewFeedback evs) s = Inr s' \<and>
           agents s' (agentEntityId (getChainId h) a) = Some ag' \<and>
           a_totalFeedback ag' = a_totalFeedback ag + int (length evs) \<and>
           statsFor (agentEntityId (getChainId h) a) (scores @ map nf_score evs)
             (agentStats s' (agentEntityId (getChainId h) a)) \<and>
           (evs \<noteq> [] \<longrightarrow> agentStats s' (agentEntityId (getChainId h) a) \<noteq> None)"
  using assms
proof (induction evs arbitrary: s ag scores)
  case Nil
  then show ?case by simp
next
  case (Cons e evs)
  let ?k = "agentEntityId (getChainId h) a"
  from Cons.prems have e: "nf_agentId e = a" and rest: "\<forall>e \<in> set evs. nf_agentId e = a"
    by simp_all
  from handleNewFeedback_step[of h s e ag scores] Cons.prems(1,3-5) e
  obtain s1 ag1 where s1: "handleNewFeedback h e s = Inr s1" "agents s1 ?k = Some ag1"
    "a_id ag1 = ?k" "a_totalFeedback ag1 = a_totalFeedback ag + 1"
    "agentStats s1 ?k \<noteq> None" "statsFor ?k (scores @ [nf_score e]) (agentStats s1 ?k)"
    by auto
  from Cons.IH[OF Cons.prems(1) rest s1(2) s1(3) s1(6)]
  obtain s' ag' where s': "run h (map NewFeedback evs) s1 = Inr s'"
    "agents s' ?k = Some ag'" "a_totalFeedback ag' = a_totalFeedback ag1 + int (length evs)"
    "statsFor ?k ((scores @ [nf_score e]) @ map nf_score evs) (agentStats s' ?k)"
    "evs \<noteq> [] \<longrightarrow> agentStats s' ?k \<noteq> None"
    by blast
  have "agentStats s' ?k \<noteq> None"
  proof (cases evs)
    case Nil
    with s' s1 show ?thesis by simp
  next
    case (Cons e' evs')
    with s' show ?thesis by simp
  qed
  with s1 s' show ?case by simp
qed

lemma run_new_feedback_stats:
  assumes "exactDecimals h"
    and "agents s (agentEntityId (getChainId h) a) = Some ag"
    and "a_id ag = agentEntityId (getChainId h) a"
    and "agentStats s (agentEntityId (getChainId h) a) = None"
    and "\<forall>e \<in> set evs. nf_agentId e = a"
    and "evs \<noteq> []"
  shows "\<exists>s' st. run h (map NewFeedback evs) s = Inr s' \<and>
           agentStats s' (agentEntityId (getChainId h) a) = Some st \<and>
           st_totalFeedback st = int (length evs) \<and>
           st_averageScore st = of_int (sum_list (map nf_score evs)) / of_int (int (length evs)) \<and>
           st_scoreDistribution st = map word_of_int (histogramOf (map nf_score evs))"
proof -
  let ?k = "agentEntityId (getChainId h) a"
  from assms(4) have "statsFor ?k [] (agentStats s ?k)" by (simp add: statsFor_def)
  from run_new_feedback[OF assms(1) assms(5) assms(2) assms(3) this] assms(6)
  obtain s' st where r: "run h (map NewFeedback evs) s = Inr s'" "agentStats s' ?k = Some st"
    "statsFor ?k (map nf_score evs) (Some st)"
    by auto
  from r(3) have st: "st_totalFeedback st = int (length evs)"
    "st_averageScore st * of_int (int (length evs)) = of_int (sum_list (map nf_score evs))"
    "st_scoreDistribution st = map word_of_int (histogramOf (map nf_score evs))"
    by (simp_all add: statsFor_def)
  from assms(6) have "(of_int (int (length evs)) :: rat) \<noteq> 0" by simp
  with st(2) have "st_averageScore st =
      of_int (sum_list (map nf_score evs)) / of_int (int (length evs))"
    by (simp add: nonzero_eq_divide_eq)
  with r st show ?thesis by simp
qed



lemma histogramOf_replicate_zero:
  "histogramOf (replicate n 0) = [int n, 0, 0, 0, 0]"
  by (simp add: histogramOf_def)


section \<open>The sample stores, evaluated\<close>

lemma sample_store_registered_fields:
  "agents sample_store_registered =
     [''1:7'' \<mapsto>
        \<lparr>a_id = ''1:7'', a_chainId = 1, a_agentId = 7, a_createdAt = 100, a_operators = [],
         a_totalFeedback = 0, a_lastActivity = 100,
         a_registrationFile = Some ''0xbeef:QmAgent'',
         a_owner = ''0x00000000000000000000000000000000000000aa'',
         a_agentURI = ''ipfs://QmAgent'', a_agentURIType = ''ipfs'', a_updatedAt = 100\<rparr>]"
  "feedbacks sample_store_registered = Map.empty"
  "agentStats sample_store_registered = Map.empty"
  "protocols sample_store_registered =
     [''1'' \<mapsto>
        \<lparr>p_id = ''1'', p_chainId = 1, p_name = ''mainnet'', p_identityRegistry = ''0x01'',
         p_reputationRegistry = ''0x02'', p_validationRegistry = ''0x03'', p_totalAgents = 2,
         p_totalFeedback = 0, p_totalValidations = 0, p_agents = [''1:7'', ''1:7''],
         p_tags = [], p_updatedAt = 100\<rparr>]"
  "globalStats sample_store_registered =
     [''global'' \<mapsto>
        \<lparr>g_id = ''global'', g_totalAgents = 1, g_totalFeedback = 0, g_totalValidations = 0,
         g_totalProtocols = 1, g_agents = [''1:7''], g_tags = [], g_updatedAt = 100\<rparr>]"
  by (simp_all add: sample_store_registered_def handleAgentRegistered_def Let_def
      sample_registered_def identity_updateProtocolStats_def linkRegistrationFile_def
      fileIdOf_def newProtocol_def newGlobalStats_def sample_host_def)

lemma sample_bd_fromString:
  "bd_fromString sample_host (toString i) = of_int i"
  "bd_fromString sample_host ''0'' = 0"
  "bd_fromString sample_host ''1'' = 1"
proof -
  show 1: "bd_fromString sample_host (toString i) = of_int i" for i
    using exactDecimals_sample_host by (simp add: exactDecimals_def)
  from 1[of 0] show "bd_fromString sample_host ''0'' = 0" by simp
  from 1[of 1] show "bd_fromString sample_host ''1'' = 1" by simp
qed

lemma sample_store_feedback_run:
  "handleNewFeedback sample_host (sample_new_feedback 85) sample_store_registered =
     Inr sample_store_feedback"
proof -
  have "\<exists>s'. handleNewFeedback sample_host (sample_new_feedback 85) sample_store_registered
          = Inr s'"
    by (simp add: handleNewFeedback_def Let_def sample_new_feedback_def updateAgentStats_def
        bucketIndex_def sample_store_registered_fields sample_bd_fromString)
  then show ?thesis by (auto simp: sample_store_feedback_def)
qed

lemma sample_store_feedback_fields:
  "agents sample_store_feedback =
     [''1:7'' \<mapsto>
        \<lparr>a_id = ''1:7'', a_chainId = 1, a_agentId = 7, a_createdAt = 100, a_operators = [],
         a_totalFeedback = 1, a_lastActivity = 200,
         a_registrationFile = Some ''0xbeef:QmAgent'',
         a_owner = ''0x00000000000000000000000000000000000000aa'',
         a_agentURI = ''ipfs://QmAgent'', a_agentURIType = ''ipfs'', a_updatedAt = 200\<rparr>]"
  "feedbacks sample_store_feedback =
     [''1:7:0x00000000000000000000000000000000000000cc:1'' \<mapsto>
        \<lparr>f_id = ''1:7:0x00000000000000000000000000000000000000cc:1'', f_agent = ''1:7'',
         f_clientAddress = ''0x00000000000000000000000000000000000000cc'', f_score = 85,
         f_tag1 = Some sample_tag, f_tag2 = Some zeroTag,
         f_feedbackUri = ''ipfs://QmFeedback'', f_feedbackURIType = ''ipfs'',
         f_feedbackHash = ''0x00'', f_isRevoked = False, f_createdAt = 200,
         f_revokedAt = None, f_feedbackFile = Some ''0xf00d:QmFeedback''\<rparr>]"
  "agentStats sample_store_feedback =
     [''1:7'' \<mapsto>
        \<lparr>st_id = ''1:7'', st_agent = ''1:7'', st_totalFeedback = 1, st_averageScore = 85,
         st_scoreDistribution = [0, 0, 0, 0, 1], st_totalValidations = 0,
         st_completedValidations = 0, st_averageValidationScore = 0, st_lastActivity = 200,
         st_updatedAt = 200\<rparr>]"
  "map_option p_tags (protocols sample_store_feedback ''1'') = Some [sample_tag]"
  "map_option g_tags (globalStats sample_store_feedback ''global'') = Some [sample_tag]"
  by (simp_all add: sample_store_feedback_def handleNewFeedback_def Let_def
      sample_new_feedback_def updateAgentStats_def bucketIndex_def
      sample_store_registered_fields linkFeedbackFile_def fileIdOf_def
      reputation_updateProtocolStats_def addTag_def zeroTag_def sample_tag_def
      sample_bd_fromString newProtocol_def newGlobalStats_def)

lemma sample_store_revoked_fields:
  "map_option a_totalFeedback (agents sample_store_revoked ''1:7'') = Some 0"
  "map_option st_totalFeedback (agentStats sample_store_revoked ''1:7'') = Some 0"
  "map_option f_isRevoked
     (feedbacks sample_store_revoked ''1:7:0x00000000000000000000000000000000000000cc:1'') =
     Some True"
  by (simp_all add: sample_store_revoked_def handleFeedbackRevoked_def Let_def
      sample_feedback_revoked_def updateAgentStatsAfterRevocation_def
      sample_store_feedback_fields)

lemma storeKeysOk_samples [simp]:
  "storeKeysOk sample_store_registered" "storeKeysOk sample_store_feedback"
  "storeKeysOk sample_store_revoked"
proof -
  show 1: "storeKeysOk sample_store_registered"
    by (simp add: sample_store_registered_def storeKeysOk_handleAgentRegistered)
  from storeKeysOk_handleNewFeedback[OF 1 sample_store_feedback_run]
  show 2: "storeKeysOk sample_store_feedback" .
  from 2 show "storeKeysOk sample_store_revoked"
    by (simp add: sample_store_revoked_def storeKeysOk_others)
qed

section \<open>Revocation\<close>

lemma handleFeedbackRevoked_found:
  assumes ok: "storeKeysOk s"
    and fb: "feedbacks s (feedbackEntityId (agentEntityId (getChainId h) (fr_agentId ev))
                 (fr_clientAddress ev) (fr_feedbackIndex ev)) = Some fb"
    and ag: "agents s (agentEntityId (getChainId h) (fr_agentId ev)) = Some ag"
  shows "agents (handleFeedbackRevoked h ev s) (agentEntityId (getChainId h) (fr_agentId ev)) =
           Some (ag\<lparr>a_totalFeedback := a_totalFeedback ag - 1,
                     a_updatedAt := fr_timestamp ev\<rparr>)"
    and "agentStats (handleFeedbackRevoked h ev s) (agentEntityId (getChainId h) (fr_agentId ev)) =
           map_option (\<lambda>st. st\<lparr>st_totalFeedback := st_totalFeedback st - 1,
                                  st_updatedAt := fr_timestamp ev\<rparr>)
             (agentStats s (agentEntityId (getChainId h) (fr_agentId ev)))"
    and "feedbacks (handleFeedbackRevoked h ev s)
           (feedbackEntityId (agentEntityId (getChainId h) (fr_agentId ev))
              (fr_clientAddress ev) (fr_feedbackIndex ev)) =
           Some (fb\<lparr>f_isRevoked := True, f_revokedAt := Some (fr_timestamp ev)\<rparr>)"
proof -
  from ok ag have 1: "a_id ag = agentEntityId (getChainId h) (fr_agentId ev)"
    by (simp add: storeKeysOk_def)
  from ok fb have 2: "f_id fb = feedbackEntityId (agentEntityId (getChainId h) (fr_agentId ev))
                 (fr_clientAddress ev) (fr_feedbackIndex ev)"
    by (simp add: storeKeysOk_def)
  from ok have 3: "\<And>st. agentStats s (agentEntityId (getChainId h) (fr_agentId ev)) = Some st
     \<Longrightarrow> st_id st = agentEntityId (getChainId h) (fr_agentId ev)"
    by (simp add: storeKeysOk_def)
  show "agents (handleFeedbackRevoked h ev s) (agentEntityId (getChainId h) (fr_agentId ev)) =
           Some (ag\<lparr>a_totalFeedback := a_totalFeedback ag - 1,
                     a_updatedAt := fr_timestamp ev\<rparr>)"
    using fb ag 1 2
    by (simp add: handleFeedbackRevoked_def updateAgentStatsAfterRevocation_def Let_def
        split: option.splits)
  show "agentStats (handleFeedbackRevoked h ev s) (agentEntityId (getChainId h) (fr_agentId ev)) =
           map_option (\<lambda>st. st\<lparr>st_totalFeedback := st_totalFeedback st - 1,
                                  st_updatedAt := fr_timestamp ev\<rparr>)
             (agentStats s (agentEntityId (getChainId h) (fr_agentId ev)))"
    using fb ag 1 2 3
    by (simp add: handleFeedbackRevoked_def updateAgentStatsAfterRevocation_def Let_def
        split: option.splits)
  show "feedbacks (handleFeedbackRevoked h ev s)
           (feedbackEntityId (agentEntityId (getChainId h) (fr_agentId ev))
              (fr_clientAddress ev) (fr_feedbackIndex ev)) =
           Some (fb\<lparr>f_isRevoked := True, f_revokedAt := Some (fr_timestamp ev)\<rparr>)"
    using fb ag 1 2
    by (simp add: handleFeedbackRevoked_def updateAgentStatsAfterRevocation_def Let_def
        split: option.splits)
qed

text \<open>
  C4. A FeedbackRevoked event whose Feedback and Agent exist lowers \<open>Agent.totalFeedback\<close> and
  \<open>AgentStats.totalFeedback\<close> by exactly 1 and leaves \<open>AgentStats.averageScore\<close> and the five
  buckets of \<open>AgentStats.scoreDistribution\<close> as they were.
\<close>

theorem revocation_decrements_counters_only:
  assumes "storeKeysOk s"
    and "feedbacks s (feedbackEntityId (agentEntityId (getChainId h) (fr_agentId ev))
                 (fr_clientAddress ev) (fr_feedbackIndex ev)) = Some fb"
    and "agents s (agentEntityId (getChainId h) (fr_agentId ev)) = Some ag"
    and "agentStats s (agentEntityId (getChainId h) (fr_agentId ev)) = Some st"
  shows "\<exists>ag' st'.
           agents (handleFeedbackRevoked h ev s) (agentEntityId (getChainId h) (fr_agentId ev))
             = Some ag' \<and>
           agentStats (handleFeedbackRevoked h ev s) (agentEntityId (getChainId h) (fr_agentId ev))
             = Some st' \<and>
           a_totalFeedback ag' = a_totalFeedback ag - 1 \<and>
           st_totalFeedback st' = st_totalFeedback st - 1 \<and>
           st_averageScore st' = st_averageScore st \<and>
           st_scoreDistribution st' = st_scoreDistribution st"
  using handleFeedbackRevoked_found(1,2)[OF assms(1-3)] assms(4) by simp

theorem revocation_decrements_counters_only_witness:
  "storeKeysOk sample_store_feedback \<and>
   feedbacks sample_store_feedback ''1:7:0x00000000000000000000000000000000000000cc:1'' \<noteq> None \<and>
   agents sample_store_feedback ''1:7'' \<noteq> None \<and>
   agentStats sample_store_feedback ''1:7'' \<noteq> None \<and>
   (\<exists>ag' st'.
      agents (handleFeedbackRevoked sample_host sample_feedback_revoked sample_store_feedback)
        ''1:7'' = Some ag' \<and>
      agentStats (handleFeedbackRevoked sample_host sample_feedback_revoked sample_store_feedback)
        ''1:7'' = Some st' \<and>
      a_totalFeedback ag' = 0 \<and> st_totalFeedback st' = 0 \<and> st_averageScore st' = 85 \<and>
      st_scoreDistribution st' = [0, 0, 0, 0, 1])"
proof -
  let ?fid = "''1:7:0x00000000000000000000000000000000000000cc:1''"
  obtain fb ag st where h: "feedbacks sample_store_feedback ?fid = Some fb"
    "agents sample_store_feedback ''1:7'' = Some ag" "a_totalFeedback ag = 1"
    "agentStats sample_store_feedback ''1:7'' = Some st" "st_totalFeedback st = 1"
    "st_averageScore st = 85" "st_scoreDistribution st = [0, 0, 0, 0, 1]"
    by (simp add: sample_store_feedback_fields)
  from revocation_decrements_counters_only[of sample_store_feedback sample_host
      sample_feedback_revoked fb ag st] h
  show ?thesis
    by (auto simp: sample_feedback_revoked_def)
qed

text \<open>
  C10. Revocation is not idempotent: \<open>handleFeedbackRevoked\<close> does not look at \<open>isRevoked\<close>,
  so a FeedbackRevoked event for a feedback that is already revoked lowers
  \<open>Agent.totalFeedback\<close> and \<open>AgentStats.totalFeedback\<close> by 1 once more; the counters can
  fall below the number of feedbacks that are not revoked, and below zero.
\<close>

theorem revocation_is_not_idempotent:
  assumes "storeKeysOk s"
    and "feedbacks s (feedbackEntityId (agentEntityId (getChainId h) (fr_agentId ev))
                 (fr_clientAddress ev) (fr_feedbackIndex ev)) = Some fb"
    and "f_isRevoked fb"
    and "agents s (agentEntityId (getChainId h) (fr_agentId ev)) = Some ag"
    and "agentStats s (agentEntityId (getChainId h) (fr_agentId ev)) = Some st"
  shows "\<exists>ag' st' fb'.
           agents (handleFeedbackRevoked h ev s) (agentEntityId (getChainId h) (fr_agentId ev))
             = Some ag' \<and>
           agentStats (handleFeedbackRevoked h ev s) (agentEntityId (getChainId h) (fr_agentId ev))
             = Some st' \<and>
           feedbacks (handleFeedbackRevoked h ev s)
             (feedbackEntityId (agentEntityId (getChainId h) (fr_agentId ev))
                (fr_clientAddress ev) (fr_feedbackIndex ev)) = Some fb' \<and>
           f_isRevoked fb' \<and>
           a_totalFeedback ag' = a_totalFeedback ag - 1 \<and>
           st_totalFeedback st' = st_totalFeedback st - 1"
  using handleFeedbackRevoked_found[OF assms(1,2,4)] assms(5) by simp

theorem revocation_is_not_idempotent_witness:
  "storeKeysOk sample_store_revoked \<and>
   map_option f_isRevoked
     (feedbacks sample_store_revoked ''1:7:0x00000000000000000000000000000000000000cc:1'') =
     Some True \<and>
   map_option a_totalFeedback (agents sample_store_revoked ''1:7'') = Some 0 \<and>
   map_option st_totalFeedback (agentStats sample_store_revoked ''1:7'') = Some 0 \<and>
   (\<exists>ag' st'.
      agents (handleFeedbackRevoked sample_host sample_feedback_revoked sample_store_revoked)
        ''1:7'' = Some ag' \<and>
      agentStats (handleFeedbackRevoked sample_host sample_feedback_revoked sample_store_revoked)
        ''1:7'' = Some st' \<and>
      a_totalFeedback ag' = - 1 \<and> st_totalFeedback st' = - 1)"
proof -
  let ?fid = "''1:7:0x00000000000000000000000000000000000000cc:1''"
  obtain fb ag st where h: "feedbacks sample_store_revoked ?fid = Some fb" "f_isRevoked fb"
    "agents sample_store_revoked ''1:7'' = Some ag" "a_totalFeedback ag = 0"
    "agentStats sample_store_revoked ''1:7'' = Some st" "st_totalFeedback st = 0"
    using sample_store_revoked_fields by auto
  from revocation_is_not_idempotent[of sample_store_revoked sample_host sample_feedback_revoked
      fb ag st] h
  show ?thesis
    by (auto simp: sample_feedback_revoked_def)
qed

section \<open>Agent membership lists\<close>

lemma identity_updateProtocolStats_globalAgents:
  "storeKeysOk s \<Longrightarrow>
   globalAgentsOf (identity_updateProtocolStats h c ag ts s) = globalAgentsOf s"
  by (auto simp: storeKeysOk_def identity_updateProtocolStats_def globalAgentsOf_def Let_def
      split: option.splits)

lemma globalAgentsOf_saveAgent [simp]: "globalAgentsOf (saveAgent a s) = globalAgentsOf s"
  by (simp add: globalAgentsOf_def)

lemma handleAgentRegistered_globalAgents:
  assumes ok: "storeKeysOk s"
  shows "globalAgentsOf (handleAgentRegistered h ev s) =
         globalAgentsOf s @ [agentEntityId (getChainId h) (reg_agentId ev)]"
proof -
  let ?k = "agentEntityId (getChainId h) (reg_agentId ev)"
  let ?ag0 = "case agents s ?k of
               None \<Rightarrow>
                 \<lparr>a_id = ?k, a_chainId = getChainId h, a_agentId = reg_agentId ev,
                  a_createdAt = reg_timestamp ev, a_operators = [], a_totalFeedback = 0,
                  a_lastActivity = reg_timestamp ev, a_registrationFile = None,
                  a_owner = [], a_agentURI = [], a_agentURIType = [], a_updatedAt = 0\<rparr>
             | Some a \<Rightarrow> a"
  let ?ag1 = "?ag0\<lparr>a_owner := reg_owner ev, a_agentURI := reg_tokenURI ev,
                   a_agentURIType := determineUriType h (reg_tokenURI ev),
                   a_updatedAt := reg_timestamp ev\<rparr>"
  let ?s3 = "identity_updateProtocolStats h (getChainId h) ?ag1 (reg_timestamp ev)
              (identity_updateProtocolStats h (getChainId h) ?ag1 (reg_timestamp ev)
                (saveAgent ?ag1 s))"
  have id: "a_id ?ag1 = ?k"
    using ok by (simp add: storeKeysOk_def split: option.splits)
  have ok3: "storeKeysOk ?s3"
    using ok by simp
  have a3: "globalAgentsOf ?s3 = globalAgentsOf s"
    using ok by (simp add: identity_updateProtocolStats_globalAgents)
  have "globalStats (handleAgentRegistered h ev s) =
        (globalStats ?s3)(g_id (case globalStats ?s3 ''global'' of None \<Rightarrow> newGlobalStats | Some g \<Rightarrow> g) \<mapsto>
           (case globalStats ?s3 ''global'' of None \<Rightarrow> newGlobalStats | Some g \<Rightarrow> g)
             \<lparr>g_totalAgents := g_totalAgents (case globalStats ?s3 ''global'' of None \<Rightarrow> newGlobalStats | Some g \<Rightarrow> g) + 1,
              g_agents := g_agents (case globalStats ?s3 ''global'' of None \<Rightarrow> newGlobalStats | Some g \<Rightarrow> g) @ [a_id ?ag1],
              g_updatedAt := reg_timestamp ev\<rparr>)"
    by (simp add: handleAgentRegistered_def Let_def)
  then have "globalAgentsOf (handleAgentRegistered h ev s) = globalAgentsOf ?s3 @ [a_id ?ag1]"
    using ok3 by (auto simp: globalAgentsOf_def storeKeysOk_def split: option.splits)
  with a3 id show ?thesis by simp
qed

text \<open>
  C8 (as amended). \<open>handleAgentRegistered\<close> appends the agent id to \<open>GlobalStats.agents\<close> on
  every Register event, whether or not the id is in the list already.
\<close>

theorem register_appends_global_agent:
  assumes "storeKeysOk s"
  shows "globalAgentsOf (handleAgentRegistered h ev s) =
         globalAgentsOf s @ [agentEntityId (getChainId h) (reg_agentId ev)]"
  using assms by (rule handleAgentRegistered_globalAgents)

theorem register_appends_global_agent_witness:
  "storeKeysOk sample_store_registered \<and>
   globalAgentsOf sample_store_registered = [''1:7''] \<and>
   globalAgentsOf (handleAgentRegistered sample_host sample_registered sample_store_registered) =
     [''1:7'', ''1:7'']"
  using register_appends_global_agent[of sample_store_registered sample_host sample_registered]
  by (simp add: globalAgentsOf_def sample_store_registered_fields sample_registered_def)

text \<open>
  C8 (as stated) fails: after a second Register event for the same agent id the id stands
  twice in \<open>GlobalStats.agents\<close>.
\<close>

theorem second_register_duplicates_agent:
  "\<not> distinct
       (globalAgentsOf
          (handleAgentRegistered sample_host sample_registered
             (handleAgentRegistered sample_host sample_registered empty_store)))"
proof -
  have "globalAgentsOf (handleAgentRegistered sample_host sample_registered sample_store_registered)
          = [''1:7'', ''1:7'']"
    using handleAgentRegistered_globalAgents[of sample_store_registered sample_host sample_registered]
    by (simp add: globalAgentsOf_def sample_store_registered_fields sample_registered_def)
  then show ?thesis by (simp add: sample_store_registered_def)
qed

section \<open>Wallet endpoints\<close>

lemma split_no_sep: "sep \<notin> set a \<Longrightarrow> split sep a = [a]"
  by (induction a) auto

lemma split_at_sep: "sep \<notin> set a \<Longrightarrow> split sep (a @ sep # b) = a # split sep b"
  by (induction a) auto

lemma split_not_Nil [simp]: "split sep str \<noteq> []"
  by (induction str) (auto split: list.splits)

lemma not_isDigit_colon: "\<not> isDigit CHR '':''"
  by (simp add: isDigit_def)

lemma isDigit_not_colon: "list_all isDigit c \<Longrightarrow> CHR '':'' \<notin> set c"
  using not_isDigit_colon by (auto simp: list_all_iff)

lemma isDigit_not_minus: "isDigit x \<Longrightarrow> x \<noteq> CHR ''-''"
  by (auto simp: isDigit_def)

lemma BigInt_fromString_digits:
  "c \<noteq> [] \<Longrightarrow> list_all isDigit c \<Longrightarrow> BigInt_fromString c = Some (int (digitsValue c))"
  by (cases c) (auto simp: BigInt_fromString_def isDigit_not_minus)

lemma startsWith_append [simp]: "startsWith (p @ rest) p"
  by (simp add: startsWith_def)

lemma split_eip155:
  assumes "CHR '':'' \<notin> set c" "CHR '':'' \<notin> set addr" "rest = [] \<or> hd rest = CHR '':''"
  shows "\<exists>more. split CHR '':'' (''eip155:'' @ c @ '':'' @ addr @ rest) = ''eip155'' # c # addr # more"
proof -
  have 1: "split CHR '':'' (''eip155:'' @ c @ '':'' @ addr @ rest) =
           ''eip155'' # split CHR '':'' (c @ CHR '':'' # addr @ rest)"
    using split_at_sep[of "CHR '':''" "''eip155''" "c @ CHR '':'' # addr @ rest"] by simp
  have 2: "split CHR '':'' (c @ CHR '':'' # addr @ rest) = c # split CHR '':'' (addr @ rest)"
    using assms(1) by (rule split_at_sep)
  have 3: "\<exists>more. split CHR '':'' (addr @ rest) = addr # more"
  proof (cases rest)
    case Nil
    with assms(2) show ?thesis by (simp add: split_no_sep)
  next
    case (Cons r rs)
    with assms(3) have "rest = CHR '':'' # rs" by simp
    with assms(2) show ?thesis by (simp add: split_at_sep)
  qed
  from 1 2 3 show ?thesis by auto
qed

lemma split_parts_no_sep: "p \<in> set (split sep w) \<Longrightarrow> sep \<notin> set p"
proof (induction w arbitrary: p)
  case Nil
  then show ?case by simp
next
  case (Cons c cs)
  show ?case
  proof (cases "c = sep")
    case True
    with Cons show ?thesis by auto
  next
    case False
    obtain q qs where q: "split sep cs = q # qs"
      by (cases "split sep cs") auto
    with Cons.IH have "sep \<notin> set q" "\<And>p. p \<in> set qs \<Longrightarrow> sep \<notin> set p"
      by auto
    with Cons.prems False q show ?thesis by auto
  qed
qed

lemma split_join:
  "concat (map (\<lambda>p. p @ [sep]) (butlast (split sep w))) @ last (split sep w) = w"
proof (induction w)
  case Nil
  then show ?case by simp
next
  case (Cons c cs)
  obtain q qs where q: "split sep cs = q # qs"
    by (cases "split sep cs") auto
  with Cons show ?case by (cases qs) auto
qed

lemma agentWalletEndpoint_bare:
  assumes "acceptedBare w"
  shows "agentWalletEndpoint h w m = Inr (m\<lparr>rf_agentWallet := Some (fromHexString h w)\<rparr>)"
  using assms by (simp add: agentWalletEndpoint_def acceptedBare_def)

lemma agentWalletEndpoint_eip155_no_chain:
  assumes "acceptedEip155 w" "split CHR '':'' w ! 1 = []"
  shows "agentWalletEndpoint h w m =
           Inr (m\<lparr>rf_agentWallet := Some (fromHexString h (split CHR '':'' w ! 2))\<rparr>)"
  using assms by (simp add: agentWalletEndpoint_def acceptedEip155_def Let_def)

lemma agentWalletEndpoint_eip155_chain:
  assumes "acceptedEip155 w" "BigInt_fromString (split CHR '':'' w ! 1) = Some n"
  shows "agentWalletEndpoint h w m =
           Inr (m\<lparr>rf_agentWallet := Some (fromHexString h (split CHR '':'' w ! 2)),
                  rf_agentWalletChainId := Some n\<rparr>)"
proof -
  from assms(2) have "split CHR '':'' w ! 1 \<noteq> []"
    by (auto simp: BigInt_fromString_def)
  with assms show ?thesis
    by (simp add: agentWalletEndpoint_def acceptedEip155_def Let_def)
qed

lemma agentWalletEndpoint_eip155_trap:
  assumes "acceptedEip155 w" "split CHR '':'' w ! 1 \<noteq> []"
    "BigInt_fromString (split CHR '':'' w ! 1) = None"
  shows "agentWalletEndpoint h w m = Inl InvalidBigIntString"
  using assms by (simp add: agentWalletEndpoint_def acceptedEip155_def Let_def)

lemma agentWalletEndpoint_rejected:
  assumes "\<not> acceptedBare w" "\<not> acceptedEip155 w"
  shows "agentWalletEndpoint h w m = Inr m"
  using assms by (auto simp: agentWalletEndpoint_def acceptedBare_def acceptedEip155_def Let_def)

lemma eip155_format_accepted:
  assumes "c \<noteq> []" "list_all isDigit c" "CHR '':'' \<notin> set addr" "startsWith addr ''0x''"
    "length addr = 42" "rest = [] \<or> hd rest = CHR '':''"
  shows "acceptedEip155 (''eip155:'' @ c @ '':'' @ addr @ rest) \<and>
         split CHR '':'' (''eip155:'' @ c @ '':'' @ addr @ rest) ! 1 = c \<and>
         split CHR '':'' (''eip155:'' @ c @ '':'' @ addr @ rest) ! 2 = addr \<and>
         BigInt_fromString c = Some (int (digitsValue c))"
proof -
  obtain more where sp: "split CHR '':'' (''eip155:'' @ c @ '':'' @ addr @ rest) =
      ''eip155'' # c # addr # more"
    using split_eip155[OF isDigit_not_colon[OF assms(2)] assms(3) assms(6)] by blast
  have sw: "startsWith (''eip155:'' @ c @ '':'' @ addr @ rest) ''eip155:''"
    by (rule startsWith_append)
  show ?thesis
    unfolding acceptedEip155_def sp
    using sw assms(4,5) BigInt_fromString_digits[OF assms(1,2)] by simp
qed

lemma eip155_two_parts_rejected:
  assumes "CHR '':'' \<notin> set x"
  shows "length (split CHR '':'' (''eip155:'' @ x)) = 2 \<and>
         \<not> acceptedEip155 (''eip155:'' @ x) \<and> \<not> acceptedBare (''eip155:'' @ x)"
proof -
  have sp: "split CHR '':'' (''eip155:'' @ x) = [''eip155'', x]"
    using split_at_sep[of "CHR '':''" "''eip155''" x] assms by (simp add: split_no_sep)
  have sw: "startsWith (''eip155:'' @ x) ''eip155:''"
    by (rule startsWith_append)
  show ?thesis
    unfolding acceptedEip155_def acceptedBare_def sp using sw by simp
qed

lemma parseRegistrationJSON_wallet_endpoint:
  "parseRegistrationJSON h
     (Some (JObject [(''endpoints'',
        JArray [JObject [(''name'', JString ''agentWallet''), (''endpoint'', JString w)]])]))
     fileId agentId cid timestamp =
   (case agentWalletEndpoint h w (newAgentRegistrationFile fileId agentId cid timestamp) of
      Inl err \<Rightarrow> Inl err
    | Inr metadata \<Rightarrow> Inr (Some metadata))"
  by (simp add: parseRegistrationJSON_def parseEndpoint_def get_def setIfSome_def
      setListIfSome_def Let_def newAgentRegistrationFile_def split: sum.splits)

text \<open>
  C9 (as amended). For every \<open>agentWallet\<close> endpoint string: a string that does not start with
  \<open>eip155:\<close> is accepted exactly when it starts with \<open>0x\<close> and has 42 characters, and then
  \<open>agentWallet\<close> becomes \<open>Bytes.fromHexString\<close> of the string and \<open>agentWalletChainId\<close> stays as
  it is. A string that starts with \<open>eip155:\<close> is accepted exactly when it splits at the colons
  into at least 3 parts and the third part starts with \<open>0x\<close> and has 42 characters; then
  \<open>agentWallet\<close> becomes \<open>Bytes.fromHexString\<close> of the third part, and \<open>agentWalletChainId\<close>
  stays as it is when the second part is empty, becomes the integer parsed from the second
  part when that is a numeral, and the handler traps otherwise. A string that is not accepted,
  such as \<open>eip155:<x>\<close> of two parts, changes nothing. In particular
  \<open>eip155:<digits>:<address>\<close>, with or without further parts, is accepted with these second
  and third parts. The parts of a string contain no colon and, joined by colons, give the
  string back.
\<close>

theorem agentWallet_endpoint_formats:
  "(acceptedBare w \<longrightarrow>
      agentWalletEndpoint h w m = Inr (m\<lparr>rf_agentWallet := Some (fromHexString h w)\<rparr>)) \<and>
   (acceptedEip155 w \<and> split CHR '':'' w ! 1 = [] \<longrightarrow>
      agentWalletEndpoint h w m =
        Inr (m\<lparr>rf_agentWallet := Some (fromHexString h (split CHR '':'' w ! 2))\<rparr>)) \<and>
   (acceptedEip155 w \<and> BigInt_fromString (split CHR '':'' w ! 1) = Some n \<longrightarrow>
      agentWalletEndpoint h w m =
        Inr (m\<lparr>rf_agentWallet := Some (fromHexString h (split CHR '':'' w ! 2)),
               rf_agentWalletChainId := Some n\<rparr>)) \<and>
   (acceptedEip155 w \<and> split CHR '':'' w ! 1 \<noteq> [] \<and>
    BigInt_fromString (split CHR '':'' w ! 1) = None \<longrightarrow>
      agentWalletEndpoint h w m = Inl InvalidBigIntString) \<and>
   (\<not> acceptedBare w \<and> \<not> acceptedEip155 w \<longrightarrow> agentWalletEndpoint h w m = Inr m) \<and>
   (c \<noteq> [] \<and> list_all isDigit c \<and> CHR '':'' \<notin> set addr \<and> startsWith addr ''0x'' \<and>
    length addr = 42 \<and> (rest = [] \<or> hd rest = CHR '':'') \<longrightarrow>
      acceptedEip155 (''eip155:'' @ c @ '':'' @ addr @ rest) \<and>
      split CHR '':'' (''eip155:'' @ c @ '':'' @ addr @ rest) ! 1 = c \<and>
      split CHR '':'' (''eip155:'' @ c @ '':'' @ addr @ rest) ! 2 = addr \<and>
      BigInt_fromString c = Some (int (digitsValue c))) \<and>
   (CHR '':'' \<notin> set x \<longrightarrow>
      length (split CHR '':'' (''eip155:'' @ x)) = 2 \<and>
      \<not> acceptedEip155 (''eip155:'' @ x) \<and> \<not> acceptedBare (''eip155:'' @ x)) \<and>
   (\<forall>p \<in> set (split CHR '':'' w). CHR '':'' \<notin> set p) \<and>
   concat (map (\<lambda>p. p @ '':'') (butlast (split CHR '':'' w))) @ last (split CHR '':'' w) = w"
  using agentWalletEndpoint_bare[of w h m] agentWalletEndpoint_eip155_no_chain[of w h m]
    agentWalletEndpoint_eip155_chain[of w n h m] agentWalletEndpoint_eip155_trap[of w h m]
    agentWalletEndpoint_rejected[of w h m] eip155_format_accepted[of c addr rest]
    eip155_two_parts_rejected[of x] split_parts_no_sep[of _ "CHR '':''" w]
    split_join[of "CHR '':''" w]
  by blast

lemma sample_wallet_strings:
  "acceptedBare ''0xabcdef0123456789abcdef0123456789abcdef01''"
  "acceptedEip155 ''eip155:1:0xABCDEF0123456789abcdef0123456789abcdef01''"
  "split CHR '':'' ''eip155:1:0xABCDEF0123456789abcdef0123456789abcdef01'' =
     [''eip155'', ''1'', ''0xABCDEF0123456789abcdef0123456789abcdef01'']"
  "BigInt_fromString ''1'' = Some 1"
  "\<not> acceptedBare ''eip155:0xabcdef0123456789abcdef0123456789abcdef01''"
  "\<not> acceptedEip155 ''eip155:0xabcdef0123456789abcdef0123456789abcdef01''"
  "sample_fromHexString ''0xabcdef0123456789abcdef0123456789abcdef01'' =
     ''0xabcdef0123456789abcdef0123456789abcdef01''"
  "sample_fromHexString ''0xABCDEF0123456789abcdef0123456789abcdef01'' =
     ''0xabcdef0123456789abcdef0123456789abcdef01''"
  by (simp_all add: acceptedBare_def acceptedEip155_def startsWith_def BigInt_fromString_def
      isDigit_def digitsValue_def digitValue_def sample_fromHexString_def lowerHexChar_def)

theorem agentWallet_endpoint_formats_witness:
  "agentWalletEndpoint sample_host ''0xabcdef0123456789abcdef0123456789abcdef01''
     (newAgentRegistrationFile ''0xbeef:QmAgent'' ''1:7'' ''QmAgent'' 100) =
     Inr ((newAgentRegistrationFile ''0xbeef:QmAgent'' ''1:7'' ''QmAgent'' 100)
            \<lparr>rf_agentWallet := Some ''0xabcdef0123456789abcdef0123456789abcdef01''\<rparr>) \<and>
   agentWalletEndpoint sample_host ''eip155:1:0xABCDEF0123456789abcdef0123456789abcdef01''
     (newAgentRegistrationFile ''0xbeef:QmAgent'' ''1:7'' ''QmAgent'' 100) =
     Inr ((newAgentRegistrationFile ''0xbeef:QmAgent'' ''1:7'' ''QmAgent'' 100)
            \<lparr>rf_agentWallet := Some ''0xabcdef0123456789abcdef0123456789abcdef01'',
              rf_agentWalletChainId := Some 1\<rparr>) \<and>
   agentWalletEndpoint sample_host ''eip155:0xabcdef0123456789abcdef0123456789abcdef01''
     (newAgentRegistrationFile ''0xbeef:QmAgent'' ''1:7'' ''QmAgent'' 100) =
     Inr (newAgentRegistrationFile ''0xbeef:QmAgent'' ''1:7'' ''QmAgent'' 100)"
proof -
  let ?m = "newAgentRegistrationFile ''0xbeef:QmAgent'' ''1:7'' ''QmAgent'' 100"
  from agentWallet_endpoint_formats[of "''0xabcdef0123456789abcdef0123456789abcdef01''"
      sample_host ?m]
  have 1: "agentWalletEndpoint sample_host ''0xabcdef0123456789abcdef0123456789abcdef01'' ?m =
     Inr (?m\<lparr>rf_agentWallet := Some ''0xabcdef0123456789abcdef0123456789abcdef01''\<rparr>)"
    using sample_wallet_strings(1,7) by simp
  from agentWallet_endpoint_formats[of
      "''eip155:1:0xABCDEF0123456789abcdef0123456789abcdef01''" sample_host ?m 1]
  have 2: "agentWalletEndpoint sample_host
      ''eip155:1:0xABCDEF0123456789abcdef0123456789abcdef01'' ?m =
     Inr (?m\<lparr>rf_agentWallet := Some ''0xabcdef0123456789abcdef0123456789abcdef01'',
              rf_agentWalletChainId := Some 1\<rparr>)"
    using sample_wallet_strings(2,3,4,8) by simp
  from agentWallet_endpoint_formats[of
      "''eip155:0xabcdef0123456789abcdef0123456789abcdef01''" sample_host ?m]
  have 3: "agentWalletEndpoint sample_host
      ''eip155:0xabcdef0123456789abcdef0123456789abcdef01'' ?m = Inr ?m"
    using sample_wallet_strings(5,6) by simp
  from 1 2 3 show ?thesis by simp
qed

text \<open>
  C9 (as stated) fails: a string of four colon-separated parts is accepted, through the
  whole of \<open>parseRegistrationJSON\<close>, and a string of two colon-separated parts that starts
  with \<open>0x\<close> and has 42 characters sets \<open>agentWallet\<close>.
\<close>

theorem agentWallet_four_parts_accepted:
  "length (split CHR '':'' ''eip155:1:0xabcdef0123456789abcdef0123456789abcdef01:extra'') = 4 \<and>
   parseRegistrationJSON sample_host
     (Some (JObject [(''endpoints'',
        JArray [JObject [(''name'', JString ''agentWallet''),
                         (''endpoint'',
                          JString ''eip155:1:0xabcdef0123456789abcdef0123456789abcdef01:extra'')]])]))
     ''0xbeef:QmAgent'' ''1:7'' ''QmAgent'' 100 =
   Inr (Some ((newAgentRegistrationFile ''0xbeef:QmAgent'' ''1:7'' ''QmAgent'' 100)
                \<lparr>rf_agentWallet := Some ''0xabcdef0123456789abcdef0123456789abcdef01'',
                  rf_agentWalletChainId := Some 1\<rparr>)) \<and>
   length (split CHR '':'' ''0x:aaaaaaaaaaaaaaaaaaaaaaaaaaaaaaaaaaaaaaa'') = 2 \<and>
   \<not> isl (agentWalletEndpoint sample_host ''0x:aaaaaaaaaaaaaaaaaaaaaaaaaaaaaaaaaaaaaaa''
            (newAgentRegistrationFile ''0xbeef:QmAgent'' ''1:7'' ''QmAgent'' 100)) \<and>
   rf_agentWallet
     (projr (agentWalletEndpoint sample_host ''0x:aaaaaaaaaaaaaaaaaaaaaaaaaaaaaaaaaaaaaaa''
               (newAgentRegistrationFile ''0xbeef:QmAgent'' ''1:7'' ''QmAgent'' 100))) \<noteq> None"
proof -
  let ?m = "newAgentRegistrationFile ''0xbeef:QmAgent'' ''1:7'' ''QmAgent'' 100"
  let ?w = "''eip155:1:0xabcdef0123456789abcdef0123456789abcdef01:extra''"
  have sp: "split CHR '':'' ?w =
      [''eip155'', ''1'', ''0xabcdef0123456789abcdef0123456789abcdef01'', ''extra'']"
    by simp
  have acc: "acceptedEip155 ?w"
    unfolding acceptedEip155_def sp by (simp add: startsWith_def)
  have "agentWalletEndpoint sample_host ?w ?m =
        Inr (?m\<lparr>rf_agentWallet := Some ''0xabcdef0123456789abcdef0123456789abcdef01'',
                 rf_agentWalletChainId := Some 1\<rparr>)"
    using agentWalletEndpoint_eip155_chain[OF acc, of 1 sample_host ?m]
      sample_wallet_strings(4,7)
    unfolding sp by simp
  moreover have "acceptedBare ''0x:aaaaaaaaaaaaaaaaaaaaaaaaaaaaaaaaaaaaaaa''"
    by (simp add: acceptedBare_def startsWith_def)
  ultimately show ?thesis
    using sp by (simp add: parseRegistrationJSON_wallet_endpoint agentWalletEndpoint_bare)
qed

section \<open>Fetch requests and links\<close>

subsection \<open>Effects are only appended\<close>

lemma requestThenLink_append:
  "requestThenLink xs \<Longrightarrow> requestThenLink ys \<Longrightarrow> requestThenLink (xs @ ys)"
proof (induction xs rule: requestThenLink.induct)
  case 1
  then show ?case by simp
next
  case (2 t param ctx es)
  then show ?case by (cases es) auto
qed auto

lemma appendsTidily_refl [simp]: "appendsTidily s s"
  by (simp add: appendsTidily_def)

lemma appendsTidily_trans:
  "appendsTidily s s1 \<Longrightarrow> appendsTidily s1 s2 \<Longrightarrow> appendsTidily s s2"
  by (auto simp: appendsTidily_def intro: requestThenLink_append)

lemma appendsTidily_newEffects:
  "appendsTidily s s' \<Longrightarrow>
   effects s' = effects s @ newEffects s s' \<and> requestThenLink (newEffects s s')"
  by (auto simp: appendsTidily_def newEffects_def)

lemma appendsTidily_save [simp]:
  "appendsTidily s s1 \<Longrightarrow> appendsTidily s (saveAgent a s1)"
  "appendsTidily s s1 \<Longrightarrow> appendsTidily s (saveAgentMetadata m s1)"
  "appendsTidily s s1 \<Longrightarrow> appendsTidily s (saveFeedback f s1)"
  "appendsTidily s s1 \<Longrightarrow> appendsTidily s (saveFeedbackResponse r s1)"
  "appendsTidily s s1 \<Longrightarrow> appendsTidily s (saveAgentStats st s1)"
  "appendsTidily s s1 \<Longrightarrow> appendsTidily s (saveProtocol p s1)"
  "appendsTidily s s1 \<Longrightarrow> appendsTidily s (saveGlobalStats g s1)"
  by (auto simp: appendsTidily_def requestThenLink_append)

lemma requestKey_registrationContext [simp]:
  "requestKey (CreateDataSource t cid (registrationContext k cid tx ts)) = Some (fileIdOf tx cid)"
  by (simp add: parseRegistrationFile_fileId_def getString_def registrationContext_def
      fileIdOf_def)

lemma requestKey_feedbackContext [simp]:
  "requestKey (CreateDataSource t cid (feedbackContext fid cid tx ts fb)) = Some (fileIdOf tx cid)"
  by (simp add: parseRegistrationFile_fileId_def getString_def feedbackContext_def
      fileIdOf_def)

lemma effects_linkRegistrationFile:
  "effects (snd (linkRegistrationFile t cid k tx ts as)) =
     effects (snd as) @
       (if 0 < length cid
        then [CreateDataSource t cid (registrationContext k cid tx ts),
              SaveAgent ((fst as)\<lparr>a_registrationFile := Some (fileIdOf tx cid)\<rparr>)]
        else [])"
  by (simp add: linkRegistrationFile_def Let_def)

lemma effects_linkFeedbackFile:
  "effects (linkFeedbackFile t cid fid tx ts fb s) =
     effects s @
       (if 0 < length cid
        then [CreateDataSource t cid (feedbackContext fid cid tx ts fb),
              SaveFeedback (fb\<lparr>f_feedbackFile := Some (fileIdOf tx cid)\<rparr>)]
        else [])"
  by (simp add: linkFeedbackFile_def Let_def)

lemma appendsTidily_linkRegistrationFile [simp]:
  "appendsTidily s (snd as) \<Longrightarrow> appendsTidily s (snd (linkRegistrationFile t cid k tx ts as))"
  by (auto simp: appendsTidily_def effects_linkRegistrationFile requestThenLink_append
      simp del: requestKey.simps)

lemma appendsTidily_linkFeedbackFile [simp]:
  "appendsTidily s s1 \<Longrightarrow> appendsTidily s (linkFeedbackFile t cid fid tx ts fb s1)"
  by (auto simp: appendsTidily_def effects_linkFeedbackFile requestThenLink_append
      simp del: requestKey.simps)

lemma appendsTidily_identity_updateProtocolStats [simp]:
  "appendsTidily s s1 \<Longrightarrow> appendsTidily s (identity_updateProtocolStats h c ag ts s1)"
  by (simp add: identity_updateProtocolStats_def Let_def)

lemma appendsTidily_reputation_updateProtocolStats [simp]:
  "appendsTidily s s1 \<Longrightarrow> appendsTidily s (reputation_updateProtocolStats h c ag ts t1 t2 s1)"
  by (simp add: reputation_updateProtocolStats_def Let_def)

lemma appendsTidily_updateAgentStats:
  "appendsTidily s s1 \<Longrightarrow> updateAgentStats h ag x ts s1 = Inr s2 \<Longrightarrow> appendsTidily s s2"
  by (auto simp: updateAgentStats_def Let_def split: if_splits option.splits)

lemma appendsTidily_handleAgentRegistered: "appendsTidily s (handleAgentRegistered h ev s)"
  by (simp add: handleAgentRegistered_def Let_def)

lemma appendsTidily_handleUriUpdated: "appendsTidily s (handleUriUpdated h ev s)"
  by (simp add: handleUriUpdated_def Let_def split: option.splits)

lemma appendsTidily_bind:
  assumes "(case updateAgentStats h ag x ts s2 of Inl e \<Rightarrow> Inl e | Inr s3 \<Rightarrow> G s3) = Inr s'"
    and "appendsTidily s s2"
    and "\<And>s3. appendsTidily s s3 \<Longrightarrow> G s3 = Inr s' \<Longrightarrow> appendsTidily s s'"
  shows "appendsTidily s s'"
  using assms by (auto split: sum.splits dest: appendsTidily_updateAgentStats[rotated])

lemma appendsTidily_handleNewFeedback:
  assumes "handleNewFeedback h ev s = Inr s'"
  shows "appendsTidily s s'"
proof (cases "agents s (agentEntityId (getChainId h) (nf_agentId ev))")
  case None
  with assms show ?thesis by (simp add: handleNewFeedback_def Let_def)
next
  case (Some ag)
  with assms show ?thesis
    apply (simp add: handleNewFeedback_def Let_def)
    apply (erule appendsTidily_bind)
     apply simp
    apply (auto simp: Let_def)
    done
qed

lemma appendsTidily_others:
  "appendsTidily s (handleMetadataSet h e1 s)"
  "appendsTidily s (handleTransfer h e3 s)"
  "appendsTidily s (handleApproval h e4 s)"
  "appendsTidily s (handleApprovalForAll h s)"
  "appendsTidily s (handleFeedbackRevoked h e5 s)"
  "appendsTidily s (handleResponseAppended h e6 s)"
  by (simp_all add: handleMetadataSet_def handleTransfer_def
      handleApproval_def handleApprovalForAll_def handleFeedbackRevoked_def
      handleResponseAppended_def updateAgentStatsAfterRevocation_def Let_def
      split: option.splits)

lemma appendsTidily_handle: "handle h e s = Inr s' \<Longrightarrow> appendsTidily s s'"
  by (cases e) (auto simp: appendsTidily_handleAgentRegistered appendsTidily_handleUriUpdated
      appendsTidily_others dest: appendsTidily_handleNewFeedback)

subsection \<open>A request and the link that follows it\<close>

lemma requestedThenLinked_append_left:
  "requestedThenLinked t cid key ys \<Longrightarrow> requestedThenLinked t cid key (xs @ ys)"
proof (induction xs)
  case Nil
  then show ?case by simp
next
  case (Cons x xs)
  then show ?case by (cases "xs @ ys") auto
qed

lemma requestedThenLinked_append_right:
  "requestedThenLinked t cid key xs \<Longrightarrow> requestedThenLinked t cid key (xs @ ys)"
  by (induction t cid key xs rule: requestedThenLinked.induct) auto

lemma requestedThenLinked_mono:
  assumes "appendsTidily s s1" "appendsTidily s1 s2"
    and "requestedThenLinked t cid key (newEffects s s1)"
  shows "requestedThenLinked t cid key (newEffects s s2)"
proof -
  from assms(1) obtain n1 where n1: "effects s1 = effects s @ n1"
    by (auto simp: appendsTidily_def)
  from assms(2) obtain n2 where n2: "effects s2 = effects s1 @ n2"
    by (auto simp: appendsTidily_def)
  from n1 n2 assms(3) show ?thesis
    by (simp add: newEffects_def requestedThenLinked_append_right)
qed

lemma requestedThenLinked_after [simp]:
  "appendsTidily s s1 \<Longrightarrow> requestedThenLinked t cid key (newEffects s s1) \<Longrightarrow>
     requestedThenLinked t cid key (newEffects s (saveAgent a s1))"
  "appendsTidily s (snd as) \<Longrightarrow> requestedThenLinked t cid key (newEffects s (snd as)) \<Longrightarrow>
     requestedThenLinked t cid key (newEffects s (snd (linkRegistrationFile t' cid' k tx ts as)))"
  by (erule requestedThenLinked_mono; simp)+

lemma requestedThenLinked_linkRegistrationFile [simp]:
  assumes "0 < length cid" "appendsTidily s (snd as)"
  shows "requestedThenLinked t cid (fileIdOf tx cid)
           (newEffects s (snd (linkRegistrationFile t cid k tx ts as)))"
proof -
  from assms(2) obtain n where n: "effects (snd as) = effects s @ n"
    by (auto simp: appendsTidily_def)
  have "requestedThenLinked t cid (fileIdOf tx cid)
          (n @ [CreateDataSource t cid (registrationContext k cid tx ts),
                SaveAgent ((fst as)\<lparr>a_registrationFile := Some (fileIdOf tx cid)\<rparr>)])"
    by (rule requestedThenLinked_append_left) simp
  with assms(1) n show ?thesis
    by (simp add: newEffects_def effects_linkRegistrationFile)
qed

lemma requestedThenLinked_linkFeedbackFile:
  assumes "0 < length cid" "appendsTidily s s1"
  shows "requestedThenLinked t cid (fileIdOf tx cid)
           (newEffects s (linkFeedbackFile t cid fid tx ts fb s1))"
proof -
  from assms(2) obtain n where n: "effects s1 = effects s @ n"
    by (auto simp: appendsTidily_def)
  have "requestedThenLinked t cid (fileIdOf tx cid)
          (n @ [CreateDataSource t cid (feedbackContext fid cid tx ts fb),
                SaveFeedback (fb\<lparr>f_feedbackFile := Some (fileIdOf tx cid)\<rparr>)])"
    by (rule requestedThenLinked_append_left) simp
  with assms(1) n show ?thesis
    by (simp add: newEffects_def effects_linkFeedbackFile)
qed

lemma register_ipfs_requested_then_linked:
  assumes "0 < length (reg_tokenURI ev)" "isIpfsUri h (reg_tokenURI ev)"
    "0 < length (extractIpfsHash h (reg_tokenURI ev))"
  shows "requestedThenLinked RegistrationFile (extractIpfsHash h (reg_tokenURI ev))
           (fileIdOf (reg_txHash ev) (extractIpfsHash h (reg_tokenURI ev)))
           (newEffects s (handleAgentRegistered h ev s))"
  using assms by (simp add: handleAgentRegistered_def Let_def)

lemma register_arweave_requested_then_linked:
  assumes "0 < length (reg_tokenURI ev)" "isArweaveUri h (reg_tokenURI ev)"
    "0 < length (extractArweaveTxId h (reg_tokenURI ev))"
  shows "requestedThenLinked ArweaveRegistrationFile (extractArweaveTxId h (reg_tokenURI ev))
           (fileIdOf (reg_txHash ev) (extractArweaveTxId h (reg_tokenURI ev)))
           (newEffects s (handleAgentRegistered h ev s))"
  using assms by (simp add: handleAgentRegistered_def Let_def)

lemma uri_updated_ipfs_requested_then_linked:
  assumes "agents s (agentEntityId (getChainId h) (uu_agentId ev)) \<noteq> None"
    "isIpfsUri h (uu_newUri ev)" "0 < length (extractIpfsHash h (uu_newUri ev))"
  shows "requestedThenLinked RegistrationFile (extractIpfsHash h (uu_newUri ev))
           (fileIdOf (uu_txHash ev) (extractIpfsHash h (uu_newUri ev)))
           (newEffects s (handleUriUpdated h ev s))"
  using assms by (auto simp: handleUriUpdated_def Let_def)

lemma uri_updated_arweave_requested_then_linked:
  assumes "agents s (agentEntityId (getChainId h) (uu_agentId ev)) \<noteq> None"
    "isArweaveUri h (uu_newUri ev)" "0 < length (extractArweaveTxId h (uu_newUri ev))"
  shows "requestedThenLinked ArweaveRegistrationFile (extractArweaveTxId h (uu_newUri ev))
           (fileIdOf (uu_txHash ev) (extractArweaveTxId h (uu_newUri ev)))
           (newEffects s (handleUriUpdated h ev s))"
  using assms by (auto simp: handleUriUpdated_def Let_def)

lemma requestedThenLinked_bind:
  assumes "(case updateAgentStats h ag x ts s2 of Inl e \<Rightarrow> Inl e | Inr s3 \<Rightarrow> G s3) = Inr s'"
    and "appendsTidily s s2"
    and "requestedThenLinked t cid key (newEffects s s2)"
    and "\<And>s3. appendsTidily s2 s3 \<Longrightarrow> G s3 = Inr s' \<Longrightarrow> appendsTidily s2 s'"
  shows "requestedThenLinked t cid key (newEffects s s')"
proof -
  from assms(1) obtain s3 where s3: "updateAgentStats h ag x ts s2 = Inr s3" "G s3 = Inr s'"
    by (auto split: sum.splits)
  have "appendsTidily s2 s3"
    by (rule appendsTidily_updateAgentStats[OF appendsTidily_refl s3(1)])
  then have "appendsTidily s2 s'"
    using s3(2) by (rule assms(4))
  with assms(2) show ?thesis
    using assms(3) by (rule requestedThenLinked_mono)
qed

lemma new_feedback_ipfs_requested_then_linked:
  assumes "agents s (agentEntityId (getChainId h) (nf_agentId ev)) \<noteq> None"
    and "handleNewFeedback h ev s = Inr s'"
    and "0 < length (nf_feedbackUri ev)" "isIpfsUri h (nf_feedbackUri ev)"
    and "0 < length (extractIpfsHash h (nf_feedbackUri ev))"
  shows "requestedThenLinked FeedbackFileTemplate (extractIpfsHash h (nf_feedbackUri ev))
           (fileIdOf (nf_txHash ev) (extractIpfsHash h (nf_feedbackUri ev))) (newEffects s s')"
  using assms
  apply (clarsimp simp: handleNewFeedback_def Let_def)
  apply (erule requestedThenLinked_bind)
    apply simp
   apply (simp add: requestedThenLinked_linkFeedbackFile)
  apply (auto simp: Let_def)
  done

lemma new_feedback_arweave_requested_then_linked:
  assumes "agents s (agentEntityId (getChainId h) (nf_agentId ev)) \<noteq> None"
    and "handleNewFeedback h ev s = Inr s'"
    and "0 < length (nf_feedbackUri ev)" "\<not> isIpfsUri h (nf_feedbackUri ev)"
    and "isArweaveUri h (nf_feedbackUri ev)"
    and "0 < length (extractArweaveTxId h (nf_feedbackUri ev))"
  shows "requestedThenLinked ArweaveFeedbackFileTemplate
           (extractArweaveTxId h (nf_feedbackUri ev))
           (fileIdOf (nf_txHash ev) (extractArweaveTxId h (nf_feedbackUri ev)))
           (newEffects s s')"
  using assms
  apply (clarsimp simp: handleNewFeedback_def Let_def)
  apply (erule requestedThenLinked_bind)
    apply simp
   apply (simp add: requestedThenLinked_linkFeedbackFile)
  apply (auto simp: Let_def)
  done

lemma sample_store_registered_effects:
  "effects sample_store_registered =
     [SaveAgent
        \<lparr>a_id = ''1:7'', a_chainId = 1, a_agentId = 7, a_createdAt = 100, a_operators = [],
         a_totalFeedback = 0, a_lastActivity = 100, a_registrationFile = None,
         a_owner = ''0x00000000000000000000000000000000000000aa'',
         a_agentURI = ''ipfs://QmAgent'', a_agentURIType = ''ipfs'', a_updatedAt = 100\<rparr>,
      SaveProtocol
        \<lparr>p_id = ''1'', p_chainId = 1, p_name = ''mainnet'', p_identityRegistry = ''0x01'',
         p_reputationRegistry = ''0x02'', p_validationRegistry = ''0x03'', p_totalAgents = 1,
         p_totalFeedback = 0, p_totalValidations = 0, p_agents = [''1:7''],
         p_tags = [], p_updatedAt = 100\<rparr>,
      SaveGlobalStats
        \<lparr>g_id = ''global'', g_totalAgents = 0, g_totalFeedback = 0, g_totalValidations = 0,
         g_totalProtocols = 1, g_agents = [], g_tags = [], g_updatedAt = 100\<rparr>,
      SaveProtocol
        \<lparr>p_id = ''1'', p_chainId = 1, p_name = ''mainnet'', p_identityRegistry = ''0x01'',
         p_reputationRegistry = ''0x02'', p_validationRegistry = ''0x03'', p_totalAgents = 2,
         p_totalFeedback = 0, p_totalValidations = 0, p_agents = [''1:7'', ''1:7''],
         p_tags = [], p_updatedAt = 100\<rparr>,
      SaveGlobalStats
        \<lparr>g_id = ''global'', g_totalAgents = 1, g_totalFeedback = 0, g_totalValidations = 0,
         g_totalProtocols = 1, g_agents = [''1:7''], g_tags = [], g_updatedAt = 100\<rparr>,
      CreateDataSource RegistrationFile ''QmAgent''
        [(''agentId'', CtxString ''1:7''), (''cid'', CtxString ''QmAgent''),
         (''txHash'', CtxString ''0xbeef''), (''timestamp'', CtxBigInt 100)],
      SaveAgent
        \<lparr>a_id = ''1:7'', a_chainId = 1, a_agentId = 7, a_createdAt = 100, a_operators = [],
         a_totalFeedback = 0, a_lastActivity = 100,
         a_registrationFile = Some ''0xbeef:QmAgent'',
         a_owner = ''0x00000000000000000000000000000000000000aa'',
         a_agentURI = ''ipfs://QmAgent'', a_agentURIType = ''ipfs'', a_updatedAt = 100\<rparr>]"
  by (simp add: sample_store_registered_def handleAgentRegistered_def Let_def
      sample_registered_def identity_updateProtocolStats_def linkRegistrationFile_def
      fileIdOf_def newProtocol_def newGlobalStats_def sample_host_def registrationContext_def)

section \<open>The key of a registration file\<close>

lemma agentWalletEndpoint_rf_id:
  "agentWalletEndpoint h w m = Inr m' \<Longrightarrow> rf_id m' = rf_id m"
  by (auto simp: agentWalletEndpoint_def Let_def split: if_splits option.splits)

lemma parseEndpoint_rf_id:
  "parseEndpoint h e m = Inr m' \<Longrightarrow> rf_id m' = rf_id m"
  by (auto simp: parseEndpoint_def dest: agentWalletEndpoint_rf_id
      split: json.splits option.splits if_splits)

lemma parseEndpoints_rf_id:
  "parseEndpoints h es m = Inr m' \<Longrightarrow> rf_id m' = rf_id m"
proof (induction es arbitrary: m)
  case Nil
  then show ?case by simp
next
  case (Cons e es)
  then show ?case by (auto split: sum.splits dest: parseEndpoint_rf_id)
qed

lemma parseRegistrationJSON_rf_id:
  "parseRegistrationJSON h content fileId agentId cid timestamp = Inr (Some m) \<Longrightarrow>
     rf_id m = fileId"
  by (auto simp: parseRegistrationJSON_def Let_def newAgentRegistrationFile_def
      dest: parseEndpoints_rf_id split: option.splits json.splits sum.splits)

lemma parseRegistrationFile_fileId_registrationContext:
  "parseRegistrationFile_fileId cid (registrationContext k cid tx ts) = Inr (fileIdOf tx cid)"
  by (simp add: parseRegistrationFile_fileId_def getString_def registrationContext_def
      fileIdOf_def)

lemma parseRegistrationFile_stores_under_key:
  assumes "parseRegistrationFile h cid (registrationContext k cid tx ts) content s = Inr s'"
  shows "s' = s \<or>
         (\<exists>m. rf_id m = fileIdOf tx cid \<and> s' = saveAgentRegistrationFile m s \<and>
              registrationFiles s' (fileIdOf tx cid) = Some m)"
  using assms
  by (auto simp: parseRegistrationFile_def getString_def getBigInt_def registrationContext_def
      fileIdOf_def saveAgentRegistrationFile_def Let_def
      dest!: parseRegistrationJSON_rf_id split: sum.splits option.splits)


lemma sample_parse_registration_file:
  "parseRegistrationFile sample_host ''QmAgent''
     (registrationContext ''1:7'' ''QmAgent'' ''0xbeef'' 100)
     (Some (JObject [(''name'', JString ''Agent Seven'')])) empty_store =
   Inr (saveAgentRegistrationFile
          ((newAgentRegistrationFile ''0xbeef:QmAgent'' ''1:7'' ''QmAgent'' 100)
             \<lparr>rf_name := Some ''Agent Seven''\<rparr>) empty_store)"
  by (simp add: parseRegistrationFile_def getString_def getBigInt_def registrationContext_def
      parseRegistrationJSON_def Let_def get_def setIfSome_def setListIfSome_def
      newAgentRegistrationFile_def)


section \<open>The order of the fetch request and the link\<close>




section \<open>Tag sets and operator sets\<close>

lemma tagSetOk_Nil [simp]: "tagSetOk []"
  by (simp add: tagSetOk_def)

lemma tagSetOk_addTag [simp]: "tagSetOk tags \<Longrightarrow> tagSetOk (addTag tag tags)"
  by (auto simp: tagSetOk_def addTag_def)

lemma operatorFound_iff: "operatorFound ops x = (x \<in> set ops)"
  by (induction ops) auto

lemma removeOperator_filter: "removeOperator ops x = filter (\<lambda>y. y \<noteq> x) ops"
  by (induction ops) auto

lemma setsInvariant_empty [simp]: "setsInvariant empty_store"
  by (simp add: setsInvariant_def empty_store_def)

lemma setsInvariant_agentD:
  "setsInvariant s \<Longrightarrow> agents s k = Some a \<Longrightarrow> distinct (a_operators a)"
  by (auto simp: setsInvariant_def)

lemma setsInvariant_save [simp]:
  "setsInvariant s \<Longrightarrow> distinct (a_operators a) \<Longrightarrow> setsInvariant (saveAgent a s)"
  "setsInvariant s \<Longrightarrow> tagSetOk (p_tags p) \<Longrightarrow> setsInvariant (saveProtocol p s)"
  "setsInvariant s \<Longrightarrow> tagSetOk (g_tags g) \<Longrightarrow> setsInvariant (saveGlobalStats g s)"
  "setsInvariant s \<Longrightarrow> setsInvariant (saveAgentMetadata m s)"
  "setsInvariant s \<Longrightarrow> setsInvariant (saveFeedback f s)"
  "setsInvariant s \<Longrightarrow> setsInvariant (saveFeedbackResponse r s)"
  "setsInvariant s \<Longrightarrow> setsInvariant (saveAgentStats st s)"
  "setsInvariant s \<Longrightarrow> setsInvariant (createWithContext t param ctx s)"
  by (simp_all add: setsInvariant_def)

lemma setsInvariant_loaded [simp]:
  "setsInvariant s \<Longrightarrow>
     tagSetOk (p_tags (case protocols s k of None \<Rightarrow> newProtocol h c | Some p \<Rightarrow> p))"
  "setsInvariant s \<Longrightarrow>
     tagSetOk (g_tags (case globalStats s k of None \<Rightarrow> newGlobalStats | Some g \<Rightarrow> g))"
  "setsInvariant s \<Longrightarrow> distinct (a_operators a) \<Longrightarrow>
     distinct (a_operators (case agents s k of None \<Rightarrow> a | Some x \<Rightarrow> x))"
  by (auto simp: setsInvariant_def newProtocol_def newGlobalStats_def Let_def
      split: option.splits)

lemma setsInvariant_case_agent:
  assumes "setsInvariant s"
    and "\<And>a. agents s k = Some a \<Longrightarrow> distinct (a_operators a) \<Longrightarrow> setsInvariant (F a)"
  shows "setsInvariant (case agents s k of None \<Rightarrow> s | Some a \<Rightarrow> F a)"
  using assms by (auto split: option.splits dest: setsInvariant_agentD)

lemma setsInvariant_identity_updateProtocolStats [simp]:
  "setsInvariant s \<Longrightarrow> setsInvariant (identity_updateProtocolStats h c ag ts s)"
  by (simp add: identity_updateProtocolStats_def Let_def)

lemma setsInvariant_reputation_updateProtocolStats [simp]:
  "setsInvariant s \<Longrightarrow> setsInvariant (reputation_updateProtocolStats h c ag ts t1 t2 s)"
  by (simp add: reputation_updateProtocolStats_def Let_def)

lemma setsInvariant_linkRegistrationFile [simp]:
  "setsInvariant (snd as) \<Longrightarrow> distinct (a_operators (fst as)) \<Longrightarrow>
     setsInvariant (snd (linkRegistrationFile t cid k tx ts as))"
  by (simp add: linkRegistrationFile_def Let_def)

lemma operators_linkRegistrationFile [simp]:
  "a_operators (fst (linkRegistrationFile t cid k tx ts as)) = a_operators (fst as)"
  by (simp add: linkRegistrationFile_def Let_def)

lemma setsInvariant_linkFeedbackFile [simp]:
  "setsInvariant s \<Longrightarrow> setsInvariant (linkFeedbackFile t cid fid tx ts fb s)"
  by (simp add: linkFeedbackFile_def Let_def)

lemma setsInvariant_handleAgentRegistered:
  "setsInvariant s \<Longrightarrow> setsInvariant (handleAgentRegistered h ev s)"
  by (simp add: handleAgentRegistered_def Let_def)

lemma setsInvariant_handleMetadataSet:
  "setsInvariant s \<Longrightarrow> setsInvariant (handleMetadataSet h ev s)"
  unfolding handleMetadataSet_def Let_def
  by (rule setsInvariant_case_agent) simp_all

lemma setsInvariant_handleUriUpdated:
  "setsInvariant s \<Longrightarrow> setsInvariant (handleUriUpdated h ev s)"
  unfolding handleUriUpdated_def Let_def
  by (rule setsInvariant_case_agent) simp_all

lemma setsInvariant_handleTransfer:
  "setsInvariant s \<Longrightarrow> setsInvariant (handleTransfer h ev s)"
  unfolding handleTransfer_def Let_def
  by (auto intro!: setsInvariant_case_agent)

lemma setsInvariant_handleApproval:
  "setsInvariant s \<Longrightarrow> setsInvariant (handleApproval h ev s)"
  unfolding handleApproval_def Let_def
  by (rule setsInvariant_case_agent)
    (simp_all add: operatorFound_iff removeOperator_filter)

lemma setsInvariant_updateAgentStats:
  "setsInvariant s \<Longrightarrow> distinct (a_operators ag) \<Longrightarrow>
     updateAgentStats h ag x ts s = Inr s' \<Longrightarrow> setsInvariant s'"
  by (auto simp: updateAgentStats_def Let_def split: if_splits option.splits)

lemma setsInvariant_updateAgentStatsAfterRevocation [simp]:
  "setsInvariant s \<Longrightarrow> distinct (a_operators ag) \<Longrightarrow>
     setsInvariant (updateAgentStatsAfterRevocation ag x ts s)"
  by (simp add: updateAgentStatsAfterRevocation_def Let_def split: option.splits)

lemma setsInvariant_handleFeedbackRevoked:
  "setsInvariant s \<Longrightarrow> setsInvariant (handleFeedbackRevoked h ev s)"
  by (auto simp: handleFeedbackRevoked_def Let_def split: option.splits
      intro!: setsInvariant_updateAgentStatsAfterRevocation intro: setsInvariant_agentD)

lemma setsInvariant_handleResponseAppended:
  "setsInvariant s \<Longrightarrow> setsInvariant (handleResponseAppended h ev s)"
  by (simp add: handleResponseAppended_def Let_def split: option.splits)

lemma setsInvariant_handleNewFeedback:
  assumes "setsInvariant s" "handleNewFeedback h ev s = Inr s'"
  shows "setsInvariant s'"
proof (cases "agents s (agentEntityId (getChainId h) (nf_agentId ev))")
  case None
  with assms show ?thesis by (simp add: handleNewFeedback_def Let_def)
next
  case (Some ag)
  with assms(1) have d: "distinct (a_operators ag)"
    by (auto dest: setsInvariant_agentD)
  from assms Some show ?thesis
    by (auto simp: handleNewFeedback_def Let_def d split: sum.splits
        dest!: setsInvariant_updateAgentStats[rotated 2, OF _ _ d])
qed

lemma setsInvariant_handle:
  "setsInvariant s \<Longrightarrow> handle h e s = Inr s' \<Longrightarrow> setsInvariant s'"
  by (cases e)
    (auto simp: setsInvariant_handleAgentRegistered setsInvariant_handleMetadataSet
      setsInvariant_handleUriUpdated setsInvariant_handleTransfer setsInvariant_handleApproval
      setsInvariant_handleFeedbackRevoked setsInvariant_handleResponseAppended
      handleApprovalForAll_def dest: setsInvariant_handleNewFeedback)

lemma setsInvariant_run:
  "setsInvariant s \<Longrightarrow> run h es s = Inr s' \<Longrightarrow> setsInvariant s'"
  by (induction es arbitrary: s) (auto split: sum.splits dest: setsInvariant_handle)

lemma addTag_cases:
  "addTag zeroTag tags = tags"
  "tag \<in> set tags \<Longrightarrow> addTag tag tags = tags"
  "tag \<noteq> zeroTag \<Longrightarrow> tag \<notin> set tags \<Longrightarrow> addTag tag tags = tags @ [tag]"
  by (simp_all add: addTag_def)

lemma handleApproval_operators:
  assumes "agents s (agentEntityId (getChainId h) (ap_tokenId ap)) = Some a"
  shows "handleApproval h ap s =
     saveAgent
       (a\<lparr>a_operators :=
            (if ap_approved ap \<noteq> zeroAddressHex then
               (if ap_approved ap \<in> set (a_operators a) then a_operators a
                else a_operators a @ [ap_approved ap])
             else filter (\<lambda>x. x \<noteq> ap_approved ap) (a_operators a)),
          a_updatedAt := ap_timestamp ap\<rparr>) s"
  using assms
  by (simp add: handleApproval_def Let_def operatorFound_iff removeOperator_filter)

text \<open>
  C7. After every sequence of events handled from the empty store, the \<open>tags\<close> list of every
  Protocol and of every GlobalStats record has no duplicates and does not contain the
  all-zero 32-byte tag, and the \<open>operators\<close> list of every Agent has no duplicates; every
  single handler keeps this so. The block that adds a tag leaves the list as it is for the
  all-zero tag and for a tag that is already in it, and appends any other tag;
  \<open>handleApproval\<close> leaves the operator list as it is for an operator that is already in it
  and appends any other operator that is not the zero address.
\<close>

theorem tag_and_operator_sets_have_no_duplicates:
  "(run h evs empty_store = Inr s' \<longrightarrow> setsInvariant s') \<and>
   (setsInvariant s \<and> handle h e s = Inr s1 \<longrightarrow> setsInvariant s1) \<and>
   addTag zeroTag tags = tags \<and>
   (tag \<in> set tags \<longrightarrow> addTag tag tags = tags) \<and>
   (tag \<noteq> zeroTag \<and> tag \<notin> set tags \<longrightarrow> addTag tag tags = tags @ [tag]) \<and>
   (agents s (agentEntityId (getChainId h) (ap_tokenId ap)) = Some a \<longrightarrow>
      handleApproval h ap s =
        saveAgent
          (a\<lparr>a_operators :=
               (if ap_approved ap \<noteq> zeroAddressHex then
                  (if ap_approved ap \<in> set (a_operators a) then a_operators a
                   else a_operators a @ [ap_approved ap])
                else filter (\<lambda>x. x \<noteq> ap_approved ap) (a_operators a)),
             a_updatedAt := ap_timestamp ap\<rparr>) s)"
  using setsInvariant_run[OF setsInvariant_empty, of h evs s']
    setsInvariant_handle[of s h e s1] addTag_cases(1)[of tags] addTag_cases(2,3)[of tag tags]
    handleApproval_operators[of s h ap a]
  by blast

lemma sample_run_feedback:
  "run sample_host [Registered sample_registered, NewFeedback (sample_new_feedback 85)]
     empty_store = Inr sample_store_feedback"
  by (simp add: sample_store_registered_def[symmetric] sample_store_feedback_run)

theorem tag_and_operator_sets_have_no_duplicates_witness:
  "run sample_host [Registered sample_registered, NewFeedback (sample_new_feedback 85)]
     empty_store = Inr sample_store_feedback \<and>
   setsInvariant sample_store_feedback \<and>
   nf_tag1 (sample_new_feedback 85) = sample_tag \<and>
   nf_tag2 (sample_new_feedback 85) = zeroTag \<and>
   map_option p_tags (protocols sample_store_feedback ''1'') = Some [sample_tag] \<and>
   map_option g_tags (globalStats sample_store_feedback ''global'') = Some [sample_tag] \<and>
   sample_tag \<in> set [sample_tag] \<and>
   addTag sample_tag [sample_tag] = [sample_tag]"
proof -
  note inst = tag_and_operator_sets_have_no_duplicates[of sample_host
      "[Registered sample_registered, NewFeedback (sample_new_feedback 85)]"
      sample_store_feedback _ _ _ "[sample_tag]" sample_tag]
  from inst have "run sample_host [Registered sample_registered,
        NewFeedback (sample_new_feedback 85)] empty_store = Inr sample_store_feedback \<longrightarrow>
      setsInvariant sample_store_feedback"
    by (rule conjunct1)
  with sample_run_feedback have inv: "setsInvariant sample_store_feedback"
    by blast
  from inst have "sample_tag \<in> set [sample_tag] \<longrightarrow> addTag sample_tag [sample_tag] = [sample_tag]"
    by (rule conjunct1[OF conjunct2[OF conjunct2[OF conjunct2]]])
  then have dup: "addTag sample_tag [sample_tag] = [sample_tag]"
    by simp
  from sample_run_feedback inv dup show ?thesis
    by (simp add: sample_store_feedback_fields sample_new_feedback_def)
qed

end
